theory Spec2Isabelle
  imports Complex_Main
begin

section \<open>Values, exceptions and the numeric library\<close>

text \<open>
  The development embeds \<^verbatim>\<open>src/filterer.py\<close>: the per-file analysis \<^verbatim>\<open>do_file\<close> and the
  control-first loop of \<^verbatim>\<open>main\<close>.

  A Python float is either NaN or a finite number. Finite numbers are modelled as reals:
  rounding and the infinities are outside the model. Every comparison with NaN is false,
  except \<^verbatim>\<open>!=\<close>, which is true; arithmetic on NaN gives NaN.
\<close>

datatype pyfloat = NaN | Fin real

fun lt :: "pyfloat \<Rightarrow> pyfloat \<Rightarrow> bool" where
  "lt (Fin a) (Fin b) = (a < b)"
| "lt _ _ = False"

fun gt :: "pyfloat \<Rightarrow> pyfloat \<Rightarrow> bool" where
  "gt (Fin a) (Fin b) = (a > b)"
| "gt _ _ = False"

fun eq :: "pyfloat \<Rightarrow> pyfloat \<Rightarrow> bool" where
  "eq (Fin a) (Fin b) = (a = b)"
| "eq _ _ = False"

definition ne :: "pyfloat \<Rightarrow> pyfloat \<Rightarrow> bool" where
  "ne a b = (\<not> eq a b)"

fun add :: "pyfloat \<Rightarrow> pyfloat \<Rightarrow> pyfloat" where
  "add (Fin a) (Fin b) = Fin (a + b)"
| "add _ _ = NaN"

fun sub :: "pyfloat \<Rightarrow> pyfloat \<Rightarrow> pyfloat" where
  "sub (Fin a) (Fin b) = Fin (a - b)"
| "sub _ _ = NaN"

fun mul :: "pyfloat \<Rightarrow> pyfloat \<Rightarrow> pyfloat" where
  "mul (Fin a) (Fin b) = Fin (a * b)"
| "mul _ _ = NaN"

text \<open>The exceptions that the modelled code can meet.\<close>

datatype exn =
    RuntimeError
  | KeyError
  | AssertionError
  | IndexError
  | TypeError
  | ValueError
  | FileNotFoundError

text \<open>
  The finite entries of a list of floats, in order: what pandas keeps when it skips NaN.
\<close>

fun finite_values :: "pyfloat list \<Rightarrow> real list" where
  "finite_values [] = []"
| "finite_values (NaN # xs) = finite_values xs"
| "finite_values (Fin x # xs) = x # finite_values xs"

definition mean_of :: "real list \<Rightarrow> real" where
  "mean_of xs = sum_list xs / real (length xs)"

definition std_of :: "real list \<Rightarrow> real" where
  "std_of xs = sqrt (sum_list (map (\<lambda>x. (x - mean_of xs)\<^sup>2) xs) / real (length xs))"

text \<open>
  \<^verbatim>\<open>numpy.mean\<close> and \<^verbatim>\<open>numpy.std\<close> of a plain list (lines 513-514): the arithmetic mean and
  the population standard deviation; NaN for an empty list (numpy warns and does not
  raise) and NaN as soon as one entry is NaN.
\<close>

definition np_mean :: "pyfloat list \<Rightarrow> pyfloat" where
  "np_mean xs = (if xs = [] \<or> NaN \<in> set xs then NaN else Fin (mean_of (finite_values xs)))"

definition np_std :: "pyfloat list \<Rightarrow> pyfloat" where
  "np_std xs = (if xs = [] \<or> NaN \<in> set xs then NaN else Fin (std_of (finite_values xs)))"

text \<open>
  \<^verbatim>\<open>numpy.mean\<close> and \<^verbatim>\<open>numpy.std\<close> of a pandas column (lines 405, 410, 462): numpy hands
  the call to the column's own \<^verbatim>\<open>mean\<close> and \<^verbatim>\<open>std\<close> (with \<^verbatim>\<open>ddof=0\<close>), which skip NaN
  entries and give NaN when nothing is left.
\<close>

definition series_mean :: "pyfloat list \<Rightarrow> pyfloat" where
  "series_mean xs = (if finite_values xs = [] then NaN else Fin (mean_of (finite_values xs)))"

definition series_std :: "pyfloat list \<Rightarrow> pyfloat" where
  "series_std xs = (if finite_values xs = [] then NaN else Fin (std_of (finite_values xs)))"

text \<open>
  \<^verbatim>\<open>numpy.percentile\<close> with its default linear interpolation: on the sorted data
  \<open>a\<close> of length \<open>n\<close>, the position \<open>q / 100 * (n - 1)\<close> is split into its floor \<open>lo\<close> and
  its fractional part, and the result interpolates between \<open>a[lo]\<close> and \<open>a[lo + 1]\<close>.
  The result is NaN when an entry is NaN. What numpy does on an empty array depends on its
  version (NaN in old versions, an exception in later ones), so the outcome on the empty
  list is the parameter \<open>on_empty\<close>. The caller checks \<open>0 \<le> q \<le> 100\<close>.
\<close>

definition interpolate :: "real list \<Rightarrow> real \<Rightarrow> real" where
  "interpolate a q =
     (let pos = q / 100 * real (length a - 1);
          lo = nat \<lfloor>pos\<rfloor>;
          hi = min (lo + 1) (length a - 1)
      in a ! lo + (pos - real lo) * (a ! hi - a ! lo))"

definition np_percentile :: "(exn + pyfloat) \<Rightarrow> pyfloat list \<Rightarrow> real \<Rightarrow> exn + pyfloat" where
  "np_percentile on_empty xs q =
     (if xs = [] then on_empty
      else if q < 0 \<or> 100 < q then Inl ValueError
      else if NaN \<in> set xs then Inr NaN
      else Inr (Fin (interpolate (sort (finite_values xs)) q)))"

section \<open>Tables\<close>

text \<open>
  A pandas DataFrame as \<^verbatim>\<open>do_file\<close> uses it: the ordered column names and the rows, each
  row with its index label and its cells in column order. A cell holds the value that
  \<^verbatim>\<open>float()\<close> reads from it. \<^verbatim>\<open>read_csv\<close> gives distinct labels and distinct column names.
\<close>

type_synonym row = "nat \<times> pyfloat list"

record table =
  columns :: "string list"
  rows :: "row list"

text \<open>\<^verbatim>\<open>row[1][name]\<close>: the cell of a row under a column; KeyError without the column.\<close>

definition cell :: "string list \<Rightarrow> pyfloat list \<Rightarrow> string \<Rightarrow> exn + pyfloat" where
  "cell cols vals name =
     (case map_of (zip cols vals) name of None \<Rightarrow> Inl KeyError | Some v \<Rightarrow> Inr v)"

text \<open>A comprehension or loop whose body may raise: the first exception ends it.\<close>

fun map_exn :: "('a \<Rightarrow> exn + 'b) \<Rightarrow> 'a list \<Rightarrow> exn + 'b list" where
  "map_exn f [] = Inr []"
| "map_exn f (x # xs) =
     (case f x of
        Inl e \<Rightarrow> Inl e
      | Inr y \<Rightarrow> (case map_exn f xs of Inl e \<Rightarrow> Inl e | Inr ys \<Rightarrow> Inr (y # ys)))"

text \<open>\<^verbatim>\<open>csv[name].astype(float)\<close>: a column's cells, top to bottom.\<close>

definition column :: "table \<Rightarrow> string \<Rightarrow> exn + pyfloat list" where
  "column t name =
     (if name \<in> set (columns t)
      then map_exn (\<lambda>r. cell (columns t) (snd r) name) (rows t)
      else Inl KeyError)"

text \<open>
  \<^verbatim>\<open>csv.drop(axis=1, labels=names)\<close> and \<^verbatim>\<open>csv.drop(axis=0, labels=ls)\<close>: pandas raises
  KeyError when a label is not in the axis, and removes every entry carrying a label.
\<close>

definition drop_columns :: "string list \<Rightarrow> table \<Rightarrow> exn + table" where
  "drop_columns names t =
     (if set names \<subseteq> set (columns t)
      then Inr \<lparr>columns = filter (\<lambda>c. c \<notin> set names) (columns t),
                rows = map (\<lambda>r. (fst r,
                  map snd (filter (\<lambda>cv. fst cv \<notin> set names) (zip (columns t) (snd r)))))
                  (rows t)\<rparr>
      else Inl KeyError)"

definition drop_labels :: "nat list \<Rightarrow> table \<Rightarrow> exn + table" where
  "drop_labels ls t =
     (if set ls \<subseteq> fst ` set (rows t)
      then Inr (t\<lparr>rows := filter (\<lambda>r. fst r \<notin> set ls) (rows t)\<rparr>)
      else Inl KeyError)"

text \<open>
  \<^verbatim>\<open>for row in csv.iterrows(): body\<close>. The generator walks the rows the table had when the
  loop started; the body changes the loop's state (the table, the drop records) and may
  raise.
\<close>

fun for_rows :: "(row \<Rightarrow> 's \<Rightarrow> exn + 's) \<Rightarrow> row list \<Rightarrow> 's \<Rightarrow> exn + 's" where
  "for_rows body [] s = Inr s"
| "for_rows body (r # rs) s =
     (case body r s of Inl e \<Rightarrow> Inl e | Inr s' \<Rightarrow> for_rows body rs s')"

section \<open>Settings\<close>

text \<open>
  The module's settings (lines 66-130). \<open>percentile_of_empty\<close> is not a setting of the
  script: it is what \<^verbatim>\<open>numpy.percentile\<close> does on an empty column.
\<close>

record settings =
  do_std_filter_flags :: "bool list option"
  do_iqr_filter_flags :: "bool list option"
  do_quality_percentile_filter :: bool
  quality_percentile_filter :: real
  conversion :: real
  do_speed_thresh :: bool
  brownian_multiplier :: real
  do_displacement_thresh :: bool
  do_linearity_thresh :: bool
  do_duration_thresh :: bool
  duration_threshold :: int
  do_speed_thresh_fallback :: bool
  brownian_speed_threshold_fallback :: real
  do_filter_scatter_plots :: bool
  save_filtering_data :: bool
  percentile_of_empty :: "exn + pyfloat"

text \<open>The globals that \<^verbatim>\<open>main\<close> assigns (lines 148-150, 155).\<close>

record globals =
  brownian_speed_threshold :: pyfloat
  brownian_displacement_threshold :: pyfloat
  brownian_linearity_threshold :: pyfloat
  quality_threshold :: "pyfloat option"

definition TRACK_DURATION :: string where
  "TRACK_DURATION = ''TRACK_DURATION''"

definition MEAN_STRAIGHT_LINE_SPEED :: string where
  "MEAN_STRAIGHT_LINE_SPEED = ''MEAN_STRAIGHT_LINE_SPEED''"

definition col_names :: "string list" where
  "col_names = [''TRACK_DISPLACEMENT'', ''TRACK_MEAN_SPEED'', ''TRACK_MEDIAN_SPEED'',
     ''TRACK_MEAN_QUALITY'', ''TOTAL_DISTANCE_TRAVELED'', ''MEAN_STRAIGHT_LINE_SPEED'',
     ''LINEARITY_OF_FORWARD_PROGRESSION'']"

definition extra_columns :: "string list" where
  "extra_columns = [''INITIAL_TRACK_COUNT'', ''FILTERED_TRACK_COUNT'',
     ''STRAIGHT_LINE_SPEED_UM_PER_S'']"

section \<open>The filter stages of \<^verbatim>\<open>do_file\<close>\<close>

text \<open>
  A drop record is an entry of \<^verbatim>\<open>dropped_row_indices\<close>: the row's label, its
  \<^verbatim>\<open>MEAN_STRAIGHT_LINE_SPEED\<close> cell and the reason. The state of the filtering part of
  \<^verbatim>\<open>do_file\<close> is the table \<^verbatim>\<open>csv\<close>, the snapshot \<^verbatim>\<open>backup\<close> and the drop records.
\<close>

type_synonym drop_record = "nat \<times> pyfloat \<times> string"

record pstate =
  csv :: table
  backup :: table
  dropped_row_indices :: "drop_record list"

text \<open>
  The two statements every stage runs on a row it rejects (for instance lines 273-276):
  append the drop record, then drop the row's label from \<^verbatim>\<open>csv\<close> in place.
\<close>

definition drop_row ::
  "string list \<Rightarrow> row \<Rightarrow> string \<Rightarrow> table \<times> drop_record list \<Rightarrow> exn + table \<times> drop_record list"
where
  "drop_row cols r reason st =
     (case cell cols (snd r) MEAN_STRAIGHT_LINE_SPEED of
        Inl e \<Rightarrow> Inl e
      | Inr v \<Rightarrow>
          (case drop_labels [fst r] (fst st) of
             Inl e \<Rightarrow> Inl e
           | Inr c \<Rightarrow> Inr (c, snd st @ [(fst r, v, reason)])))"

text \<open>
  The end of every \<^verbatim>\<open>try\<close> block and its handler (for instance lines 279-287): an empty
  table raises \<^verbatim>\<open>RuntimeError('Overfiltering Error')\<close>, and the handler puts \<^verbatim>\<open>backup\<close> back.
  The drop records appended by the stage stay. The handler catches RuntimeError only: any
  other exception ends \<^verbatim>\<open>do_file\<close>. A RuntimeError can reach the handler from the block's
  statements only through the library (the percentile of an empty column), before the
  loop has changed anything; the loops themselves raise none (lemma
  \<open>for_rows_drop_not_RuntimeError\<close>).
\<close>

definition overfiltering_guard :: "pstate \<Rightarrow> pstate" where
  "overfiltering_guard s = (if rows (csv s) = [] then s\<lparr>csv := backup s\<rparr> else s)"

definition end_try :: "pstate \<Rightarrow> exn + table \<times> drop_record list \<Rightarrow> exn + pstate" where
  "end_try s r =
     (case r of
        Inl e \<Rightarrow> if e = RuntimeError then Inr (s\<lparr>csv := backup s\<rparr>) else Inl e
      | Inr st \<Rightarrow> Inr (overfiltering_guard (s\<lparr>csv := fst st, dropped_row_indices := snd st\<rparr>)))"

text \<open>Lines 258-261: rows whose duration is NaN are dropped, with no drop record.\<close>

definition null_body :: "string list \<Rightarrow> row \<Rightarrow> table \<Rightarrow> exn + table" where
  "null_body cols r c =
     (case cell cols (snd r) TRACK_DURATION of
        Inl e \<Rightarrow> Inl e
      | Inr d \<Rightarrow> if ne d d then drop_labels [fst r] c else Inr c)"

definition null_filter :: "table \<Rightarrow> exn + table" where
  "null_filter t = for_rows (null_body (columns t)) (rows t) t"

text \<open>Lines 264-287: the duration stage. It takes its snapshot first (line 265).\<close>

definition duration_body ::
  "int \<Rightarrow> string list \<Rightarrow> row \<Rightarrow> table \<times> drop_record list \<Rightarrow> exn + table \<times> drop_record list"
where
  "duration_body thr cols r st =
     (case cell cols (snd r) TRACK_DURATION of
        Inl e \<Rightarrow> Inl e
      | Inr d \<Rightarrow>
          if lt d (Fin (of_int thr)) \<or> ne d d
          then drop_row cols r ''DURATION_THRESHOLD'' st
          else Inr st)"

definition duration_stage :: "settings \<Rightarrow> pstate \<Rightarrow> exn + pstate" where
  "duration_stage cfg s0 =
     (let s = s0\<lparr>backup := csv s0\<rparr> in
      end_try s
        (if do_duration_thresh cfg
         then for_rows (duration_body (duration_threshold cfg) (columns (csv s)))
                (rows (csv s)) (csv s, dropped_row_indices s)
         else Inr (csv s, dropped_row_indices s)))"

text \<open>
  The loop body of the speed, displacement, linearity and quality stages: the row is
  rejected when \<^verbatim>\<open>float(row[1][name]) < threshold\<close>.
\<close>

definition threshold_body ::
  "string \<Rightarrow> pyfloat \<Rightarrow> string \<Rightarrow> string list \<Rightarrow> row \<Rightarrow> table \<times> drop_record list
     \<Rightarrow> exn + table \<times> drop_record list"
where
  "threshold_body name thr reason cols r st =
     (case cell cols (snd r) name of
        Inl e \<Rightarrow> Inl e
      | Inr v \<Rightarrow> if lt v thr then drop_row cols r reason st else Inr st)"

text \<open>
  Lines 299-319: the speed stage. Its \<^verbatim>\<open>try\<close> block does not assign \<^verbatim>\<open>backup\<close>: the
  snapshot in force is the one the duration stage took at line 265.
\<close>

definition speed_stage :: "settings \<Rightarrow> pyfloat \<Rightarrow> pstate \<Rightarrow> exn + pstate" where
  "speed_stage cfg speed_threshold s =
     end_try s
       (if do_speed_thresh cfg
        then for_rows (threshold_body MEAN_STRAIGHT_LINE_SPEED speed_threshold
                 ''SPEED_THRESHOLD'' (columns (csv s)))
               (rows (csv s)) (csv s, dropped_row_indices s)
        else Inr (csv s, dropped_row_indices s))"

text \<open>Lines 321-344 and 346-368: the displacement and linearity stages.\<close>

definition displacement_stage :: "settings \<Rightarrow> pyfloat \<Rightarrow> pstate \<Rightarrow> exn + pstate" where
  "displacement_stage cfg displacement_threshold s0 =
     (let s = s0\<lparr>backup := csv s0\<rparr> in
      end_try s
        (if do_displacement_thresh cfg
         then for_rows (threshold_body ''TRACK_DISPLACEMENT'' displacement_threshold
                  ''DISPLACEMENT_THRESHOLD'' (columns (csv s)))
                (rows (csv s)) (csv s, dropped_row_indices s)
         else Inr (csv s, dropped_row_indices s)))"

definition linearity_stage :: "settings \<Rightarrow> pyfloat \<Rightarrow> pstate \<Rightarrow> exn + pstate" where
  "linearity_stage cfg linearity_threshold s0 =
     (let s = s0\<lparr>backup := csv s0\<rparr> in
      end_try s
        (if do_linearity_thresh cfg
         then for_rows (threshold_body ''LINEARITY_OF_FORWARD_PROGRESSION'' linearity_threshold
                  ''LINEARITY_THRESHOLD'' (columns (csv s)))
                (rows (csv s)) (csv s, dropped_row_indices s)
         else Inr (csv s, dropped_row_indices s)))"

text \<open>
  Lines 370-396: the quality stage. The percentile is taken once, from the table as the
  stage finds it (lines 375-377), before the loop over the rows.
\<close>

definition quality_stage :: "settings \<Rightarrow> pstate \<Rightarrow> exn + pstate" where
  "quality_stage cfg s0 =
     (let s = s0\<lparr>backup := csv s0\<rparr> in
      end_try s
        (if do_quality_percentile_filter cfg
         then
           (case column (csv s) ''TRACK_MEAN_QUALITY'' of
              Inl e \<Rightarrow> Inl e
            | Inr qs \<Rightarrow>
                (case np_percentile (percentile_of_empty cfg) qs (quality_percentile_filter cfg) of
                   Inl e \<Rightarrow> Inl e
                 | Inr quality_percentile_threshold \<Rightarrow>
                     for_rows (threshold_body ''TRACK_MEAN_QUALITY'' quality_percentile_threshold
                         ''QUALITY_PERCENTILE'' (columns (csv s)))
                       (rows (csv s)) (csv s, dropped_row_indices s)))
         else Inr (csv s, dropped_row_indices s)))"

text \<open>
  The scan of one row in the std and IQR stages (lines 417-433 and 469-485), over the
  row's cells with the mean, the spread (standard deviation or IQR) and the flag of each
  column; \<open>k\<close> is 2 or 1.5. The source indexes four lists by position; the lists are zipped
  here. The result tells which branch rejected the row, if any.
\<close>

datatype branch = Lower | Upper

fun outlier_scan ::
  "real \<Rightarrow> pyfloat \<Rightarrow> (pyfloat \<times> pyfloat \<times> pyfloat \<times> bool) list \<Rightarrow> branch option"
where
  "outlier_scan k speed_threshold [] = None"
| "outlier_scan k speed_threshold ((x, m, sp, flag) # rest) =
     (if lt x (sub m (mul (Fin k) sp)) then Some Lower
      else if eq speed_threshold (Fin 0) \<and> flag \<and> gt x (add m (mul (Fin k) sp)) then Some Upper
      else outlier_scan k speed_threshold rest)"

definition outlier_body ::
  "real \<Rightarrow> pyfloat \<Rightarrow> bool list \<Rightarrow> pyfloat list \<Rightarrow> pyfloat list \<Rightarrow> string \<Rightarrow> string list \<Rightarrow> row
     \<Rightarrow> table \<times> drop_record list \<Rightarrow> exn + table \<times> drop_record list"
where
  "outlier_body k speed_threshold flags mean_values spreads reason cols r st =
     (case outlier_scan k speed_threshold (zip (snd r) (zip mean_values (zip spreads flags))) of
        None \<Rightarrow> Inr st
      | Some b \<Rightarrow> drop_row cols r reason st)"

text \<open>
  Lines 404-411: \<^verbatim>\<open>[f(csv[col_name].astype(float)) if std_drop_flags[i] else 0.0
  for i, col_name in enumerate(csv.columns)]\<close>. A flag list shorter than the columns
  raises IndexError.
\<close>

definition flagged_stats ::
  "(pyfloat list \<Rightarrow> pyfloat) \<Rightarrow> table \<Rightarrow> bool list \<Rightarrow> exn + pyfloat list"
where
  "flagged_stats f t flags =
     map_exn (\<lambda>ic.
        if fst ic < length flags
        then (if flags ! fst ic
              then (case column t (snd ic) of Inl e \<Rightarrow> Inl e | Inr xs \<Rightarrow> Inr (f xs))
              else Inr (Fin 0))
        else Inl IndexError)
       (enumerate 0 (columns t))"

text \<open>Lines 398-444: the std stage.\<close>

definition std_stage :: "pyfloat \<Rightarrow> bool list option \<Rightarrow> pstate \<Rightarrow> exn + pstate" where
  "std_stage speed_threshold std_drop_flags s0 =
     (let s = s0\<lparr>backup := csv s0\<rparr> in
      end_try s
        (case std_drop_flags of
           None \<Rightarrow> Inr (csv s, dropped_row_indices s)
         | Some flags \<Rightarrow>
             (case flagged_stats series_std (csv s) flags of
                Inl e \<Rightarrow> Inl e
              | Inr std_values \<Rightarrow>
                  (case flagged_stats series_mean (csv s) flags of
                     Inl e \<Rightarrow> Inl e
                   | Inr mean_values \<Rightarrow>
                       for_rows (outlier_body 2 speed_threshold flags mean_values std_values
                           ''INTERNAL_STD_FILTERING'' (columns (csv s)))
                         (rows (csv s)) (csv s, dropped_row_indices s)))))"

text \<open>
  Lines 453-458: the IQR of every flagged column, 0.0 for the others. The stage is entered
  only when the flag list is as long as the columns, so no index is out of range.
\<close>

definition iqr_of :: "(exn + pyfloat) \<Rightarrow> pyfloat list \<Rightarrow> exn + pyfloat" where
  "iqr_of on_empty xs =
     (case np_percentile on_empty xs 25 of
        Inl e \<Rightarrow> Inl e
      | Inr q1 \<Rightarrow>
          (case np_percentile on_empty xs 75 of Inl e \<Rightarrow> Inl e | Inr q3 \<Rightarrow> Inr (sub q3 q1)))"

definition iqr_stats :: "(exn + pyfloat) \<Rightarrow> table \<Rightarrow> bool list \<Rightarrow> exn + pyfloat list" where
  "iqr_stats on_empty t flags =
     map_exn (\<lambda>ic.
        if flags ! fst ic
        then (case column t (snd ic) of Inl e \<Rightarrow> Inl e | Inr xs \<Rightarrow> iqr_of on_empty xs)
        else Inr (Fin 0))
       (enumerate 0 (columns t))"

text \<open>
  Lines 461-463: \<^verbatim>\<open>[mean(csv[col_name].astype(float)) if iqr_drop_flags[i] else 0.0
  for col_name in csv.columns]\<close>. The comprehension does not bind \<^verbatim>\<open>i\<close>: it reads the
  function's \<^verbatim>\<open>i\<close>, which the loop of line 455 left at the last column's position. One
  flag, the last column's, decides for every column.
\<close>

definition iqr_means :: "table \<Rightarrow> bool list \<Rightarrow> exn + pyfloat list" where
  "iqr_means t flags =
     map_exn (\<lambda>col_name.
        if flags ! (length (columns t) - 1)
        then (case column t col_name of Inl e \<Rightarrow> Inl e | Inr xs \<Rightarrow> Inr (series_mean xs))
        else Inr (Fin 0))
       (columns t)"

text \<open>Lines 446-498: the IQR stage.\<close>

definition iqr_stage ::
  "settings \<Rightarrow> pyfloat \<Rightarrow> bool list option \<Rightarrow> pstate \<Rightarrow> exn + pstate"
where
  "iqr_stage cfg speed_threshold iqr_drop_flags s0 =
     (let s = s0\<lparr>backup := csv s0\<rparr> in
      end_try s
        (case iqr_drop_flags of
           None \<Rightarrow> Inr (csv s, dropped_row_indices s)
         | Some flags \<Rightarrow>
             if length flags = length (columns (csv s))
             then
               (case iqr_stats (percentile_of_empty cfg) (csv s) flags of
                  Inl e \<Rightarrow> Inl e
                | Inr iqr_values \<Rightarrow>
                    (case iqr_means (csv s) flags of
                       Inl e \<Rightarrow> Inl e
                     | Inr mean_values \<Rightarrow>
                         for_rows (outlier_body (3 / 2) speed_threshold flags mean_values iqr_values
                             ''INTERNAL_IQR_FILTERING'' (columns (csv s)))
                           (rows (csv s)) (csv s, dropped_row_indices s)))
             else Inr (csv s, dropped_row_indices s)))"

section \<open>\<^verbatim>\<open>do_file\<close>\<close>

text \<open>Sequencing of statements that may raise.\<close>

definition bind_exn :: "exn + 'a \<Rightarrow> ('a \<Rightarrow> exn + 'b) \<Rightarrow> exn + 'b" where
  "bind_exn m f = (case m of Inl e \<Rightarrow> Inl e | Inr x \<Rightarrow> f x)"

text \<open>
  Lines 230-234: the columns other than \<^verbatim>\<open>TRACK_DURATION\<close> must be \<^verbatim>\<open>col_names\<close>, in order.
  Lines 294-297 run the same loop without the exemption.
\<close>

fun check_order :: "bool \<Rightarrow> string list \<Rightarrow> nat \<Rightarrow> exn + unit" where
  "check_order skip [] i = Inr ()"
| "check_order skip (item # rest) i =
     (if skip \<and> item = TRACK_DURATION then check_order skip rest i
      else if length col_names \<le> i then Inl IndexError
      else if item = col_names ! i then check_order skip rest (i + 1)
      else Inl AssertionError)"

text \<open>Lines 221-237: unused columns go, the order is checked, the three header rows go.\<close>

definition prepare :: "table \<Rightarrow> exn + table" where
  "prepare t =
     bind_exn
       (drop_columns (filter (\<lambda>c. c \<notin> set col_names \<and> c \<noteq> TRACK_DURATION) (columns t)) t)
       (\<lambda>t1. bind_exn (check_order True (columns t1) 0) (\<lambda>_. drop_labels [0, 1, 2] t1))"

text \<open>
  Lines 239-248, with \<^verbatim>\<open>save_filtering_data\<close>: the histogram reads every row's speed cell.
  Plotting itself has no effect on what \<^verbatim>\<open>do_file\<close> returns.
\<close>

definition histogram_reads :: "settings \<Rightarrow> table \<Rightarrow> exn + unit" where
  "histogram_reads cfg t =
     (if save_filtering_data cfg
      then bind_exn (map_exn (\<lambda>r. cell (columns t) (snd r) MEAN_STRAIGHT_LINE_SPEED) (rows t))
             (\<lambda>_. Inr ())
      else Inr ())"

text \<open>Lines 289-297: the duration column goes, and the columns must be \<^verbatim>\<open>col_names\<close>.\<close>

definition discard_duration :: "table \<Rightarrow> exn + table" where
  "discard_duration t =
     bind_exn (drop_columns [TRACK_DURATION] t)
       (\<lambda>t1. if columns t1 = col_names
             then bind_exn (check_order False (columns t1) 0) (\<lambda>_. Inr t1)
             else Inl AssertionError)"

text \<open>
  Lines 250-500: the filtering part of \<^verbatim>\<open>do_file\<close>, from the table that \<open>prepare\<close> gives to
  the table the summary is computed from. Line 256 takes a first snapshot, the null
  filter runs unguarded, and the seven stages follow in order.
\<close>

definition filter_stages ::
  "settings \<Rightarrow> pyfloat \<Rightarrow> pyfloat \<Rightarrow> pyfloat \<Rightarrow> bool list option \<Rightarrow> bool list option \<Rightarrow> table
     \<Rightarrow> exn + pstate"
where
  "filter_stages cfg displacement_threshold speed_threshold linearity_threshold
       std_drop_flags iqr_drop_flags t =
     bind_exn (null_filter t) (\<lambda>t1.
     bind_exn (duration_stage cfg \<lparr>csv = t1, backup = t, dropped_row_indices = []\<rparr>) (\<lambda>s1.
     bind_exn (discard_duration (csv s1)) (\<lambda>c.
     bind_exn (speed_stage cfg speed_threshold (s1\<lparr>csv := c\<rparr>)) (\<lambda>s2.
     bind_exn (displacement_stage cfg displacement_threshold s2) (\<lambda>s3.
     bind_exn (linearity_stage cfg linearity_threshold s3) (\<lambda>s4.
     bind_exn (quality_stage cfg s4) (\<lambda>s5.
     bind_exn (std_stage speed_threshold std_drop_flags s5) (\<lambda>s6.
     iqr_stage cfg speed_threshold iqr_drop_flags s6))))))))"

text \<open>
  Lines 505-527: the summary. \<^verbatim>\<open>output_data\<close> holds the seven means, the two row counts
  and the converted speed; \<^verbatim>\<open>output_std\<close> the seven standard deviations. An entry is a float
  or \<^verbatim>\<open>None\<close>. With no row left, the loop of lines 516-519 sets every entry of
  \<^verbatim>\<open>output_data\<close> to \<^verbatim>\<open>None\<close>; \<^verbatim>\<open>output_std\<close> is not touched by it.
\<close>

definition summarize ::
  "settings \<Rightarrow> table \<Rightarrow> nat \<Rightarrow> exn + pyfloat option list \<times> pyfloat option list"
where
  "summarize cfg t initial_num_rows =
     (let final_num_rows = length (rows t) in
      bind_exn (map_exn (column t) col_names) (\<lambda>cs.
        let output_data1 = map (\<lambda>xs. Some (np_mean xs)) cs
                             @ replicate (length extra_columns) (Some (Fin 0));
            output_std = map (\<lambda>xs. Some (np_std xs)) cs;
            output_data2 = (if final_num_rows = 0 then map (\<lambda>_. None) output_data1
                            else output_data1);
            output_data3 = output_data2
                             [length col_names := Some (Fin (real initial_num_rows)),
                              length col_names + 1 := Some (Fin (real final_num_rows))];
            output_data4 = output_data3
                             [length col_names + 2 :=
                                (case output_data3 ! 5 of
                                   None \<Rightarrow> None
                                 | Some v \<Rightarrow> Some (mul v (Fin (conversion cfg))))]
        in Inr (output_data4, output_std)))"

text \<open>
  Lines 570-612, with \<^verbatim>\<open>do_filter_scatter_plots\<close>: when the global
  \<^verbatim>\<open>brownian_speed_threshold\<close> is 0.0, line 606 adds to \<^verbatim>\<open>output_data[5]\<close>, which raises
  TypeError when that entry is \<^verbatim>\<open>None\<close>.
\<close>

definition scatter_plot ::
  "settings \<Rightarrow> globals \<Rightarrow> pyfloat option list \<Rightarrow> exn + unit"
where
  "scatter_plot cfg g output_data =
     (if do_filter_scatter_plots cfg \<and> \<not> ne (brownian_speed_threshold g) (Fin 0)
         \<and> output_data ! 5 = None
      then Inl TypeError
      else Inr ())"

text \<open>Lines 221-666: everything \<^verbatim>\<open>do_file\<close> does once the file is read.\<close>

definition analyse ::
  "settings \<Rightarrow> globals \<Rightarrow> pyfloat \<Rightarrow> pyfloat \<Rightarrow> pyfloat \<Rightarrow> bool list option \<Rightarrow> bool list option
     \<Rightarrow> table \<Rightarrow> exn + pyfloat option list \<times> pyfloat option list"
where
  "analyse cfg g displacement_threshold speed_threshold linearity_threshold
       std_drop_flags iqr_drop_flags t0 =
     bind_exn (prepare t0) (\<lambda>t.
     bind_exn (histogram_reads cfg t) (\<lambda>_.
     bind_exn (filter_stages cfg displacement_threshold speed_threshold linearity_threshold
                 std_drop_flags iqr_drop_flags t) (\<lambda>s.
     bind_exn (summarize cfg (csv s) (length (rows t))) (\<lambda>out.
     bind_exn (scatter_plot cfg g (fst out)) (\<lambda>_. Inr out)))))"

text \<open>
  \<^verbatim>\<open>do_file\<close> (lines 189-666). \<open>read_csv\<close> is the file system as \<^verbatim>\<open>pd.read_csv\<close> sees it: a
  table, or the exception it raises. Only a RuntimeError is caught at lines 216-219, and
  the lists returned there hold nine and seven \<^verbatim>\<open>None\<close>s.
\<close>

definition do_file ::
  "settings \<Rightarrow> globals \<Rightarrow> (string \<Rightarrow> exn + table) \<Rightarrow> string \<Rightarrow> pyfloat \<Rightarrow> pyfloat \<Rightarrow> pyfloat
     \<Rightarrow> bool list option \<Rightarrow> bool list option \<Rightarrow> exn + pyfloat option list \<times> pyfloat option list"
where
  "do_file cfg g read_csv name displacement_threshold speed_threshold linearity_threshold
       std_drop_flags iqr_drop_flags =
     (case read_csv name of
        Inl e \<Rightarrow>
          if e = RuntimeError
          then Inr (map (\<lambda>_. None) col_names @ [None, None], map (\<lambda>_. None) col_names)
          else Inl e
      | Inr t0 \<Rightarrow>
          analyse cfg g displacement_threshold speed_threshold linearity_threshold
            std_drop_flags iqr_drop_flags t0)"

section \<open>\<^verbatim>\<open>main\<close>: the control-first loop\<close>

text \<open>
  The state of the loop of lines 807-847: the globals and the two numpy arrays, one row
  per file. Assigning a list to a row of a float array stores \<^verbatim>\<open>None\<close> as NaN and raises
  ValueError when the list's length is neither the row's nor one.
\<close>

record mstate =
  globs :: globals
  array :: "pyfloat list list"
  std_array :: "pyfloat list list"

definition as_float :: "pyfloat option \<Rightarrow> pyfloat" where
  "as_float v = (case v of None \<Rightarrow> NaN | Some x \<Rightarrow> x)"

definition assign_row ::
  "pyfloat list list \<Rightarrow> nat \<Rightarrow> pyfloat option list \<Rightarrow> exn + pyfloat list list"
where
  "assign_row a i xs =
     (if length xs = length (a ! i) then Inr (a[i := map as_float xs])
      else if length xs = 1 then Inr (a[i := map (\<lambda>_. as_float (hd xs)) (a ! i)])
      else Inl ValueError)"

text \<open>
  Lines 808-832: the first file when a control file was found. \<^verbatim>\<open>do_file\<close> gets 0.0 for
  the three thresholds; a RuntimeError makes both rows NaN; the thresholds are then read
  from row 0 of the arrays.
\<close>

definition control_step ::
  "settings \<Rightarrow> (string \<Rightarrow> exn + table) \<Rightarrow> nat \<Rightarrow> string \<Rightarrow> mstate \<Rightarrow> exn + mstate"
where
  "control_step cfg read_csv i name st =
     bind_exn
       (case do_file cfg (globs st) read_csv name (Fin 0) (Fin 0) (Fin 0)
               (do_std_filter_flags cfg) (do_iqr_filter_flags cfg) of
          Inl e \<Rightarrow>
            if e = RuntimeError
            then Inr (st\<lparr>array := (array st)[i := map (\<lambda>_. NaN) (array st ! i)],
                          std_array := (std_array st)[i := map (\<lambda>_. NaN) (std_array st ! i)]\<rparr>)
            else Inl e
        | Inr out \<Rightarrow>
            bind_exn (assign_row (array st) i (fst out)) (\<lambda>a.
            bind_exn (assign_row (std_array st) i (snd out)) (\<lambda>sa.
              Inr (st\<lparr>array := a, std_array := sa\<rparr>))))
       (\<lambda>st1. Inr (st1\<lparr>globs := (globs st1)
          \<lparr>brownian_speed_threshold :=
              add (array st1 ! 0 ! 5)
                (mul (Fin (brownian_multiplier cfg)) (std_array st1 ! 0 ! 5)),
           brownian_displacement_threshold := array st1 ! 0 ! 0,
           quality_threshold := Some (array st1 ! 0 ! 3),
           brownian_linearity_threshold := array st1 ! 0 ! 6\<rparr>\<rparr>))"

text \<open>
  Lines 834-847: every other file. \<^verbatim>\<open>do_file\<close> gets the global thresholds, in the order
  displacement, speed, linearity of its parameters; nothing is caught. The fallback of
  lines 846-847 applies to the first file only, so only when no control file was found.
\<close>

definition other_step ::
  "settings \<Rightarrow> (string \<Rightarrow> exn + table) \<Rightarrow> nat \<Rightarrow> string \<Rightarrow> mstate \<Rightarrow> exn + mstate"
where
  "other_step cfg read_csv i name st =
     bind_exn
       (do_file cfg (globs st) read_csv name
          (brownian_displacement_threshold (globs st))
          (brownian_speed_threshold (globs st))
          (brownian_linearity_threshold (globs st))
          (do_std_filter_flags cfg) (do_iqr_filter_flags cfg)) (\<lambda>out.
     bind_exn (assign_row (array st) i (fst out)) (\<lambda>a.
     bind_exn (assign_row (std_array st) i (snd out)) (\<lambda>sa.
       let st1 = st\<lparr>array := a, std_array := sa\<rparr> in
       Inr (if i = 0 \<and> do_speed_thresh_fallback cfg
            then st1\<lparr>globs := (globs st1)
                   \<lparr>brownian_speed_threshold := Fin (brownian_speed_threshold_fallback cfg)\<rparr>\<rparr>
            else st1))))"

fun analyze_files ::
  "settings \<Rightarrow> (string \<Rightarrow> exn + table) \<Rightarrow> bool \<Rightarrow> (nat \<times> string) list \<Rightarrow> mstate \<Rightarrow> exn + mstate"
where
  "analyze_files cfg read_csv has_control [] st = Inr st"
| "analyze_files cfg read_csv has_control ((i, name) # rest) st =
     bind_exn
       (if i = 0 \<and> has_control then control_step cfg read_csv i name st
        else other_step cfg read_csv i name st)
       (analyze_files cfg read_csv has_control rest)"

text \<open>
  \<^verbatim>\<open>main\<close> from line 797 to the end of the loop (line 847): \<open>names\<close> are the files found, the
  control file first when \<open>has_control\<close>. Finding the files and writing the results are
  not modelled.
\<close>

definition initial_globals :: globals where
  "initial_globals =
     \<lparr>brownian_speed_threshold = Fin 0, brownian_displacement_threshold = Fin 0,
      brownian_linearity_threshold = Fin 0, quality_threshold = None\<rparr>"

text \<open>Lines 148-150 and 803-804: the globals and the zero arrays, one row per file.\<close>

definition initial_mstate :: "nat \<Rightarrow> mstate" where
  "initial_mstate n =
     \<lparr>globs = initial_globals,
      array = replicate n (replicate (length col_names + length extra_columns) (Fin 0)),
      std_array = replicate n (replicate (length col_names) (Fin 0))\<rparr>"

definition main :: "settings \<Rightarrow> (string \<Rightarrow> exn + table) \<Rightarrow> bool \<Rightarrow> string list \<Rightarrow> exn + mstate" where
  "main cfg read_csv has_control names =
     (if names = [] then Inl RuntimeError
      else analyze_files cfg read_csv has_control (enumerate 0 names)
             (initial_mstate (length names)))"

section \<open>Vocabulary of the properties\<close>

text \<open>
  The representation invariant of a table: the labels are distinct and every row has one
  cell per column.
\<close>

definition wf_table :: "table \<Rightarrow> bool" where
  "wf_table t =
     (distinct (map fst (rows t)) \<and> list_all (\<lambda>r. length (snd r) = length (columns t)) (rows t))"

text \<open>A row's cell under a column that the table has.\<close>

definition the_cell :: "string list \<Rightarrow> pyfloat list \<Rightarrow> string \<Rightarrow> pyfloat" where
  "the_cell cols vals name = (case cell cols vals name of Inl e \<Rightarrow> NaN | Inr v \<Rightarrow> v)"

text \<open>The drop records of the rows that a test rejects, in row order.\<close>

definition rejected_records ::
  "(row \<Rightarrow> bool) \<Rightarrow> string \<Rightarrow> string list \<Rightarrow> row list \<Rightarrow> drop_record list"
where
  "rejected_records rej reason cols rs =
     map (\<lambda>r. (fst r, the_cell cols (snd r) MEAN_STRAIGHT_LINE_SPEED, reason)) (filter rej rs)"

text \<open>The index labels of a table.\<close>

definition labels :: "table \<Rightarrow> nat set" where
  "labels t = fst ` set (rows t)"

text \<open>
  A loop body that leaves the loop's state alone or drops the row it visits, with one drop
  record for it.
\<close>

definition drops_rows ::
  "(row \<Rightarrow> table \<times> drop_record list \<Rightarrow> exn + table \<times> drop_record list) \<Rightarrow> bool"
where
  "drops_rows body =
     (\<forall>r st st'. body r st = Inr st' \<longrightarrow>
        st' = st \<or> (\<exists>v reason. st' =
          ((fst st)\<lparr>rows := filter (\<lambda>x. fst x \<noteq> fst r) (rows (fst st))\<rparr>,
           snd st @ [(fst r, v, reason)])))"

text \<open>
  What a guarded stage that takes its own snapshot leaves when it rejects the rows failing
  a fixed test \<open>rej\<close>: the snapshot, the surviving rows (or the snapshot again when none
  survives) and the drop records of the rejected rows.
\<close>

definition stage_outcome :: "(row \<Rightarrow> bool) \<Rightarrow> string \<Rightarrow> pstate \<Rightarrow> pstate" where
  "stage_outcome rej reason s =
     overfiltering_guard (s\<lparr>backup := csv s,
       csv := (csv s)\<lparr>rows := filter (\<lambda>r. \<not> rej r) (rows (csv s))\<rparr>,
       dropped_row_indices := dropped_row_indices s
          @ rejected_records rej reason (columns (csv s)) (rows (csv s))\<rparr>)"

text \<open>
  The control-first protocol in the words of the specification, to be compared with
  \<open>main\<close>. \<open>position\<close> is the place of a column in \<^verbatim>\<open>col_names\<close>. The thresholds are
  derived from the control's summary: the speed threshold is the control mean of
  \<^verbatim>\<open>MEAN_STRAIGHT_LINE_SPEED\<close> plus the multiplier times its control standard deviation, the
  displacement threshold the control mean of \<^verbatim>\<open>TRACK_DISPLACEMENT\<close>, the linearity
  threshold the control mean of \<^verbatim>\<open>LINEARITY_OF_FORWARD_PROGRESSION\<close>.
\<close>

definition position :: "string \<Rightarrow> nat" where
  "position name = length (takeWhile (\<lambda>c. c \<noteq> name) col_names)"

definition derived_thresholds :: "settings \<Rightarrow> pyfloat list \<Rightarrow> pyfloat list \<Rightarrow> globals" where
  "derived_thresholds cfg means stds =
     \<lparr>brownian_speed_threshold =
        add (means ! position ''MEAN_STRAIGHT_LINE_SPEED'')
          (mul (Fin (brownian_multiplier cfg)) (stds ! position ''MEAN_STRAIGHT_LINE_SPEED'')),
      brownian_displacement_threshold = means ! position ''TRACK_DISPLACEMENT'',
      brownian_linearity_threshold = means ! position ''LINEARITY_OF_FORWARD_PROGRESSION'',
      quality_threshold = Some (means ! position ''TRACK_MEAN_QUALITY'')\<rparr>"

text \<open>
  The control condition is analysed with the three thresholds at zero, and its summary is
  stored in row 0 (NaN rows when the analysis raised RuntimeError).
\<close>

definition control_run ::
  "settings \<Rightarrow> (string \<Rightarrow> exn + table) \<Rightarrow> string \<Rightarrow> mstate \<Rightarrow> exn + mstate"
where
  "control_run cfg read_csv control st =
     (case do_file cfg initial_globals read_csv control (Fin 0) (Fin 0) (Fin 0)
             (do_std_filter_flags cfg) (do_iqr_filter_flags cfg) of
        Inl e \<Rightarrow>
          if e = RuntimeError
          then Inr (st\<lparr>array := (array st)[0 := map (\<lambda>_. NaN) (array st ! 0)],
                        std_array := (std_array st)[0 := map (\<lambda>_. NaN) (std_array st ! 0)]\<rparr>)
          else Inl e
      | Inr out \<Rightarrow>
          bind_exn (assign_row (array st) 0 (fst out)) (\<lambda>a.
          bind_exn (assign_row (std_array st) 0 (snd out)) (\<lambda>sa.
            Inr (st\<lparr>array := a, std_array := sa\<rparr>))))"

text \<open>Every other condition is analysed with one and the same set of thresholds.\<close>

fun treat_conditions ::
  "settings \<Rightarrow> (string \<Rightarrow> exn + table) \<Rightarrow> globals \<Rightarrow> (nat \<times> string) list \<Rightarrow> mstate \<Rightarrow> exn + mstate"
where
  "treat_conditions cfg read_csv thr [] st = Inr st"
| "treat_conditions cfg read_csv thr ((i, name) # rest) st =
     bind_exn
       (do_file cfg thr read_csv name
          (brownian_displacement_threshold thr)
          (brownian_speed_threshold thr)
          (brownian_linearity_threshold thr)
          (do_std_filter_flags cfg) (do_iqr_filter_flags cfg)) (\<lambda>out.
     bind_exn (assign_row (array st) i (fst out)) (\<lambda>a.
     bind_exn (assign_row (std_array st) i (snd out)) (\<lambda>sa.
       treat_conditions cfg read_csv thr rest (st\<lparr>array := a, std_array := sa\<rparr>))))"

definition control_first ::
  "settings \<Rightarrow> (string \<Rightarrow> exn + table) \<Rightarrow> string \<Rightarrow> string list \<Rightarrow> exn + mstate"
where
  "control_first cfg read_csv control others =
     bind_exn
       (control_run cfg read_csv control (initial_mstate (Suc (length others))))
       (\<lambda>st1.
          let thr = derived_thresholds cfg (array st1 ! 0) (std_array st1 ! 0)
          in treat_conditions cfg read_csv thr (enumerate 1 others) (st1\<lparr>globs := thr\<rparr>))"

section \<open>Example inputs\<close>

text \<open>The settings as the script ships them (lines 66-130).\<close>

definition default_settings :: settings where
  "default_settings =
     \<lparr>do_std_filter_flags = None, do_iqr_filter_flags = None,
      do_quality_percentile_filter = False, quality_percentile_filter = 50,
      conversion = 32 / 25, do_speed_thresh = True, brownian_multiplier = 0,
      do_displacement_thresh = False, do_linearity_thresh = False,
      do_duration_thresh = True, duration_threshold = 65,
      do_speed_thresh_fallback = False,
      brownian_speed_threshold_fallback = 42114570268546765 / 1000000000000000000,
      do_filter_scatter_plots = True, save_filtering_data = False,
      percentile_of_empty = Inr NaN\<rparr>"

text \<open>The three header rows of an exported table; their cells are never read.\<close>

definition header_rows :: "nat \<Rightarrow> row list" where
  "header_rows n = [(0, replicate n NaN), (1, replicate n NaN), (2, replicate n NaN)]"

text \<open>The globals while a treatment file is analysed, for a control mean speed of 0.05.\<close>

definition treatment_globals :: globals where
  "treatment_globals = initial_globals\<lparr>brownian_speed_threshold := Fin (1 / 20)\<rparr>"

text \<open>
  Two tracks, after the header rows are gone: track 3 is long and slow, track 4 short
  and fast. The columns are the duration and the seven of \<^verbatim>\<open>col_names\<close>.
\<close>

definition c1_table :: table where
  "c1_table = \<lparr>columns = TRACK_DURATION # col_names,
          rows = [(3, map Fin [100, 1, 1, 1, 1, 1, 1 / 100, 1]),
                  (4, map Fin [10, 1, 1, 1, 1, 1, 1 / 2, 1])]\<rparr>"

definition c1_after_duration :: pstate where
  "c1_after_duration =
     \<lparr>csv = \<lparr>columns = TRACK_DURATION # col_names,
             rows = [(3, map Fin [100, 1, 1, 1, 1, 1, 1 / 100, 1])]\<rparr>,
      backup = c1_table,
      dropped_row_indices = [(4, Fin (1 / 2), ''DURATION_THRESHOLD'')]\<rparr>"

definition c1_before_speed :: pstate where
  "c1_before_speed =
     \<lparr>csv = \<lparr>columns = col_names, rows = [(3, map Fin [1, 1, 1, 1, 1, 1 / 100, 1])]\<rparr>,
      backup = c1_table,
      dropped_row_indices = [(4, Fin (1 / 2), ''DURATION_THRESHOLD'')]\<rparr>"

text \<open>
  Two tracks that differ in \<^verbatim>\<open>TRACK_DISPLACEMENT\<close> only, and flags that select
  \<^verbatim>\<open>MEAN_STRAIGHT_LINE_SPEED\<close> alone.
\<close>

definition c2_table :: table where
  "c2_table = \<lparr>columns = col_names,
          rows = [(3, map Fin [- 1, 1, 1, 1, 1, 1 / 2, 1]),
                  (4, map Fin [1, 1, 1, 1, 1, 1 / 2, 1])]\<rparr>"

definition c2_flags :: "bool list" where
  "c2_flags = [False, False, False, False, False, True, False]"

definition c2_state :: pstate where
  "c2_state = \<lparr>csv = c2_table, backup = c2_table, dropped_row_indices = []\<rparr>"

text \<open>A file whose two tracks have no duration.\<close>

definition c7_table :: table where
  "c7_table = \<lparr>columns = TRACK_DURATION # col_names,
          rows = header_rows 8 @
                 [(3, NaN # map Fin [1, 1, 1, 1, 1, 1 / 2, 1]),
                  (4, NaN # map Fin [1, 1, 1, 1, 1, 1 / 2, 1])]\<rparr>"

definition c7_prepared :: table where
  "c7_prepared = \<lparr>columns = TRACK_DURATION # col_names,
          rows = [(3, NaN # map Fin [1, 1, 1, 1, 1, 1 / 2, 1]),
                  (4, NaN # map Fin [1, 1, 1, 1, 1, 1 / 2, 1])]\<rparr>"

definition c7_empty :: table where
  "c7_empty = \<lparr>columns = TRACK_DURATION # col_names, rows = []\<rparr>"

definition c7_state :: pstate where
  "c7_state = \<lparr>csv = c7_empty, backup = c7_empty, dropped_row_indices = []\<rparr>"

definition c7_summary :: "pyfloat option list \<times> pyfloat option list" where
  "c7_summary =
     ([None, None, None, None, None, None, None, Some (Fin 2), Some (Fin 0), None],
      [Some NaN, Some NaN, Some NaN, Some NaN, Some NaN, Some NaN, Some NaN])"

text \<open>
  A folder with a control file of one track and no file for the other conditions that
  \<^verbatim>\<open>main\<close> was given.
\<close>

definition c8_control :: table where
  "c8_control = \<lparr>columns = TRACK_DURATION # col_names,
          rows = header_rows 8 @ [(3, map Fin [100, 1, 1, 1, 1, 1, 1 / 20, 1])]\<rparr>"

definition c8_files :: "string \<Rightarrow> exn + table" where
  "c8_files name = (if name = ''0khz_tracks.csv'' then Inr c8_control else Inl FileNotFoundError)"

definition c8_prepared :: table where
  "c8_prepared = \<lparr>columns = TRACK_DURATION # col_names,
          rows = [(3, map Fin [100, 1, 1, 1, 1, 1, 1 / 20, 1])]\<rparr>"

definition c8_filtered :: table where
  "c8_filtered = \<lparr>columns = col_names, rows = [(3, map Fin [1, 1, 1, 1, 1, 1 / 20, 1])]\<rparr>"

definition c8_summary :: "pyfloat option list \<times> pyfloat option list" where
  "c8_summary =
     (map (\<lambda>x. Some (Fin x)) [1, 1, 1, 1, 1, 1 / 20, 1, 1, 1, 8 / 125],
      map (\<lambda>x. Some (Fin x)) [0, 0, 0, 0, 0, 0, 0])"

text \<open>Tables with the seven columns and no duration column.\<close>

definition c9_table :: table where
  "c9_table = \<lparr>columns = col_names,
          rows = header_rows 7 @ [(3, map Fin [1, 1, 1, 1, 1, 1 / 2, 1])]\<rparr>"

definition c9_prepared :: table where
  "c9_prepared = \<lparr>columns = col_names, rows = [(3, map Fin [1, 1, 1, 1, 1, 1 / 2, 1])]\<rparr>"

definition c9_headers_only :: table where
  "c9_headers_only = \<lparr>columns = col_names, rows = header_rows 7\<rparr>"

text \<open>Two tracks, the first without a duration.\<close>

definition c10_table :: table where
  "c10_table = \<lparr>columns = TRACK_DURATION # col_names,
          rows = [(3, NaN # map Fin [1, 1, 1, 1, 1, 1 / 2, 1]),
                  (4, map Fin [100, 1, 1, 1, 1, 1, 1 / 2, 1])]\<rparr>"

definition c10_nonnull :: table where
  "c10_nonnull = \<lparr>columns = TRACK_DURATION # col_names,
          rows = [(4, map Fin [100, 1, 1, 1, 1, 1, 1 / 2, 1])]\<rparr>"

definition c10_filtered :: table where
  "c10_filtered = \<lparr>columns = col_names, rows = [(4, map Fin [1, 1, 1, 1, 1, 1 / 2, 1])]\<rparr>"

definition c10_final :: pstate where
  "c10_final = \<lparr>csv = c10_filtered, backup = c10_filtered, dropped_row_indices = []\<rparr>"

text \<open>The shipped settings with the quality filter on, and three tracks of quality 1, 2, 3.\<close>

definition quality_settings :: settings where
  "quality_settings = default_settings\<lparr>do_quality_percentile_filter := True\<rparr>"

definition c6_table :: table where
  "c6_table = \<lparr>columns = col_names,
          rows = [(3, map Fin [1, 1, 1, 1, 1, 1 / 2, 1]),
                  (4, map Fin [1, 1, 1, 2, 1, 1 / 2, 1]),
                  (5, map Fin [1, 1, 1, 3, 1, 1 / 2, 1])]\<rparr>"

definition c6_state :: pstate where
  "c6_state = \<lparr>csv = c6_table, backup = c6_table, dropped_row_indices = []\<rparr>"

definition c6_after_quality :: pstate where
  "c6_after_quality =
     \<lparr>csv = \<lparr>columns = col_names,
             rows = [(4, map Fin [1, 1, 1, 2, 1, 1 / 2, 1]),
                     (5, map Fin [1, 1, 1, 3, 1, 1 / 2, 1])]\<rparr>,
      backup = c6_table,
      dropped_row_indices = [(3, Fin (1 / 2), ''QUALITY_PERCENTILE'')]\<rparr>"

section \<open>Vocabulary of a second run\<close>

text \<open>A row without its duration cell, as line 290 leaves it.\<close>

definition without_duration :: "string list \<Rightarrow> row \<Rightarrow> row" where
  "without_duration cols r =
     (fst r, map snd (filter (\<lambda>cv. fst cv \<noteq> TRACK_DURATION) (zip cols (snd r))))"

text \<open>
  A row passes every enabled test with a fixed threshold: its duration is a number and,
  for each of the duration, speed, displacement and linearity stages that is enabled,
  its cell is not below the threshold.
\<close>

definition passes ::
  "settings \<Rightarrow> pyfloat \<Rightarrow> pyfloat \<Rightarrow> pyfloat \<Rightarrow> string list \<Rightarrow> pyfloat list \<Rightarrow> bool"
where
  "passes cfg displacement_threshold speed_threshold linearity_threshold cols vals =
     (the_cell cols vals TRACK_DURATION \<noteq> NaN
      \<and> (do_duration_thresh cfg \<longrightarrow>
           \<not> lt (the_cell cols vals TRACK_DURATION) (Fin (of_int (duration_threshold cfg))))
      \<and> (do_speed_thresh cfg \<longrightarrow>
           \<not> lt (the_cell cols vals MEAN_STRAIGHT_LINE_SPEED) speed_threshold)
      \<and> (do_displacement_thresh cfg \<longrightarrow>
           \<not> lt (the_cell cols vals ''TRACK_DISPLACEMENT'') displacement_threshold)
      \<and> (do_linearity_thresh cfg \<longrightarrow>
           \<not> lt (the_cell cols vals ''LINEARITY_OF_FORWARD_PROGRESSION'') linearity_threshold))"

text \<open>The tracks of a table with the given labels: the input of a second run.\<close>

definition keep_tracks :: "table \<Rightarrow> nat list \<Rightarrow> table" where
  "keep_tracks t ls = t\<lparr>rows := filter (\<lambda>r. fst r \<in> set ls) (rows t)\<rparr>"

text \<open>The table of the seven columns that holds the given rows without their duration cells.\<close>

definition stripped :: "string list \<Rightarrow> row list \<Rightarrow> table" where
  "stripped cols rs = \<lparr>columns = col_names, rows = map (without_duration cols) rs\<rparr>"

section \<open>Example inputs of a second run\<close>

text \<open>
  Three tracks of duration 100, speed 0.5 and quality 1, 2 and 3; the table after the duration
  column is discarded; the outcome of a first run with the quality filter on; the tracks it
  kept, with their duration cells; and the outcome of a second run on them.
\<close>

definition c5_table :: table where
  "c5_table = \<lparr>columns = TRACK_DURATION # col_names,
          rows = [(3, map Fin [100, 1, 1, 1, 1, 1, 1 / 2, 1]),
                  (4, map Fin [100, 1, 1, 1, 2, 1, 1 / 2, 1]),
                  (5, map Fin [100, 1, 1, 1, 3, 1, 1 / 2, 1])]\<rparr>"

definition c5_stripped :: table where
  "c5_stripped = \<lparr>columns = col_names,
          rows = [(3, map Fin [1, 1, 1, 1, 1, 1 / 2, 1]),
                  (4, map Fin [1, 1, 1, 2, 1, 1 / 2, 1]),
                  (5, map Fin [1, 1, 1, 3, 1, 1 / 2, 1])]\<rparr>"

definition c5_produced :: table where
  "c5_produced = \<lparr>columns = col_names,
          rows = [(4, map Fin [1, 1, 1, 2, 1, 1 / 2, 1]),
                  (5, map Fin [1, 1, 1, 3, 1, 1 / 2, 1])]\<rparr>"

definition c5_first :: pstate where
  "c5_first = \<lparr>csv = c5_produced, backup = c5_produced,
      dropped_row_indices = [(3, Fin (1 / 2), ''QUALITY_PERCENTILE'')]\<rparr>"

definition c5_kept :: table where
  "c5_kept = \<lparr>columns = TRACK_DURATION # col_names,
          rows = [(4, map Fin [100, 1, 1, 1, 2, 1, 1 / 2, 1]),
                  (5, map Fin [100, 1, 1, 1, 3, 1, 1 / 2, 1])]\<rparr>"

definition c5_reduced :: table where
  "c5_reduced = \<lparr>columns = col_names,
          rows = [(5, map Fin [1, 1, 1, 3, 1, 1 / 2, 1])]\<rparr>"

definition c5_second :: pstate where
  "c5_second = \<lparr>csv = c5_reduced, backup = c5_reduced,
      dropped_row_indices = [(4, Fin (1 / 2), ''QUALITY_PERCENTILE'')]\<rparr>"

section \<open>Cells and loops\<close>

lemma cell_defined:
  "length vals = length cols \<Longrightarrow> name \<in> set cols \<Longrightarrow> cell cols vals name = Inr (the_cell cols vals name)"
proof -
  assume "length vals = length cols" "name \<in> set cols"
  then obtain v where "map_of (zip cols vals) name = Some v"
    using map_of_zip_is_Some[of cols vals name] by auto
  then show ?thesis by (simp add: cell_def the_cell_def)
qed

lemma cell_missing: "name \<notin> set cols \<Longrightarrow> cell cols vals name = Inl KeyError"
  unfolding cell_def
  by (cases "map_of (zip cols vals) name") (auto dest: map_of_SomeD set_zip_leftD)

lemma drop_labels_single:
  "l \<in> fst ` set (rows c) \<Longrightarrow> drop_labels [l] c = Inr (c\<lparr>rows := filter (\<lambda>r. fst r \<noteq> l) (rows c)\<rparr>)"
  by (simp add: drop_labels_def)

lemma for_rows_drop_closed:
  assumes "distinct (map fst (rows c))"
    and "distinct (map fst rs)"
    and "set rs \<subseteq> set (rows c)"
    and "\<And>r. r \<in> set rs \<Longrightarrow> rej r \<Longrightarrow> MEAN_STRAIGHT_LINE_SPEED \<in> set cols \<and> length (snd r) = length cols"
    and "\<And>r st. r \<in> set rs \<Longrightarrow> body r st = (if rej r then drop_row cols r reason st else Inr st)"
  shows "for_rows body rs (c, d) =
     Inr (c\<lparr>rows := filter (\<lambda>r. \<not> (r \<in> set rs \<and> rej r)) (rows c)\<rparr>, d @ rejected_records rej reason cols rs)"
  using assms
proof (induction rs arbitrary: c d)
  case Nil
  then show ?case by (simp add: rejected_records_def)
next
  case (Cons r rs)
  have drs: "distinct (map fst rs)" and rnot: "fst r \<notin> fst ` set rs"
    using Cons.prems(2) by simp_all
  have inr: "r \<in> set (rows c)" using Cons.prems(3) by simp
  show ?case
  proof (cases "rej r")
    case False
    have "for_rows body (r # rs) (c, d) = for_rows body rs (c, d)"
      using Cons.prems(5)[of r "(c, d)"] False by simp
    also have "\<dots> = Inr (c\<lparr>rows := filter (\<lambda>x. \<not> (x \<in> set rs \<and> rej x)) (rows c)\<rparr>, d @ rejected_records rej reason cols rs)"
      using Cons.prems drs by (intro Cons.IH) auto
    finally have eq0: "for_rows body (r # rs) (c, d) =
      Inr (c\<lparr>rows := filter (\<lambda>x. \<not> (x \<in> set rs \<and> rej x)) (rows c)\<rparr>, d @ rejected_records rej reason cols rs)" .
    have rows_eq: "filter (\<lambda>x. \<not> (x \<in> set rs \<and> rej x)) (rows c)
        = filter (\<lambda>x. \<not> (x \<in> set (r # rs) \<and> rej x)) (rows c)"
      using False by (auto intro: filter_cong)
    show ?thesis unfolding eq0 using False rows_eq
      by (simp add: rejected_records_def)
  next
    case True
    let ?c' = "c\<lparr>rows := filter (\<lambda>x. fst x \<noteq> fst r) (rows c)\<rparr>"
    let ?v = "the_cell cols (snd r) MEAN_STRAIGHT_LINE_SPEED"
    have step: "body r (c, d) = Inr (?c', d @ [(fst r, ?v, reason)])"
      using Cons.prems(5)[of r "(c, d)"] True Cons.prems(4)[of r] inr
      by (simp add: drop_row_def cell_defined drop_labels_single)
    have sub: "set rs \<subseteq> set (rows ?c')"
    proof
      fix x assume x: "x \<in> set rs"
      then have "fst x \<in> fst ` set rs" by simp
      then have "fst x \<noteq> fst r" using rnot by metis
      moreover have "x \<in> set (rows c)" using x Cons.prems(3) by auto
      ultimately show "x \<in> set (rows ?c')" by simp
    qed
    have "for_rows body (r # rs) (c, d) = for_rows body rs (?c', d @ [(fst r, ?v, reason)])"
      using step by simp
    also have "\<dots> = Inr (?c'\<lparr>rows := filter (\<lambda>x. \<not> (x \<in> set rs \<and> rej x)) (rows ?c')\<rparr>,
        (d @ [(fst r, ?v, reason)]) @ rejected_records rej reason cols rs)"
      using Cons.prems sub drs by (intro Cons.IH) (auto simp: distinct_map_filter)
    finally have eq1: "for_rows body (r # rs) (c, d) =
       Inr (?c'\<lparr>rows := filter (\<lambda>x. \<not> (x \<in> set rs \<and> rej x)) (rows ?c')\<rparr>,
        (d @ [(fst r, ?v, reason)]) @ rejected_records rej reason cols rs)" .
    have same: "\<And>x. x \<in> set (rows c) \<Longrightarrow> (fst x = fst r) = (x = r)"
      using Cons.prems(1) inr by (auto simp: distinct_map inj_on_def)
    have rows_eq: "filter (\<lambda>x. \<not> (x \<in> set rs \<and> rej x)) (rows ?c')
        = filter (\<lambda>x. \<not> (x \<in> set (r # rs) \<and> rej x)) (rows c)"
      using True same by (auto intro: filter_cong)
    show ?thesis unfolding eq1 using True rows_eq
      by (simp add: rejected_records_def)
  qed
qed

lemma for_rows_drop_all:
  assumes "distinct (map fst (rows c))"
    and "\<And>r. r \<in> set (rows c) \<Longrightarrow> rej r \<Longrightarrow> MEAN_STRAIGHT_LINE_SPEED \<in> set cols \<and> length (snd r) = length cols"
    and "\<And>r st. r \<in> set (rows c) \<Longrightarrow> body r st = (if rej r then drop_row cols r reason st else Inr st)"
  shows "for_rows body (rows c) (c, d) =
     Inr (c\<lparr>rows := filter (\<lambda>r. \<not> rej r) (rows c)\<rparr>, d @ rejected_records rej reason cols (rows c))"
proof -
  have "filter (\<lambda>r. \<not> (r \<in> set (rows c) \<and> rej r)) (rows c) = filter (\<lambda>r. \<not> rej r) (rows c)"
    by (auto intro: filter_cong)
  then show ?thesis
    using for_rows_drop_closed[OF assms(1) assms(1) subset_refl, of rej cols body reason d] assms(2,3)
    by simp
qed


lemma bind_exn_Inr [simp]: "bind_exn (Inr x) f = f x"
  by (simp add: bind_exn_def)

lemma bind_exn_Inl [simp]: "bind_exn (Inl e) f = Inl e"
  by (simp add: bind_exn_def)

lemma bind_exn_eq_Inr: "bind_exn m f = Inr y \<Longrightarrow> \<exists>x. m = Inr x \<and> f x = Inr y"
  by (cases m) simp_all

lemma map_exn_all_Inr: "(\<And>x. x \<in> set xs \<Longrightarrow> f x = Inr (g x)) \<Longrightarrow> map_exn f xs = Inr (map g xs)"
  by (induction xs) simp_all

lemma wf_table_cell:
  "wf_table t \<Longrightarrow> r \<in> set (rows t) \<Longrightarrow> name \<in> set (columns t) \<Longrightarrow>
     cell (columns t) (snd r) name = Inr (the_cell (columns t) (snd r) name)"
  by (simp add: wf_table_def list_all_iff cell_defined)

lemma column_closed:
  "wf_table t \<Longrightarrow> name \<in> set (columns t) \<Longrightarrow>
     column t name = Inr (map (\<lambda>r. the_cell (columns t) (snd r) name) (rows t))"
  unfolding column_def by (simp add: map_exn_all_Inr wf_table_cell)

lemma threshold_loop_closed:
  assumes "wf_table t" and "name \<in> set (columns t)"
    and "MEAN_STRAIGHT_LINE_SPEED \<in> set (columns t)"
  shows "for_rows (threshold_body name thr reason (columns t)) (rows t) (t, d) =
     Inr (t\<lparr>rows := filter (\<lambda>r. \<not> lt (the_cell (columns t) (snd r) name) thr) (rows t)\<rparr>,
          d @ rejected_records (\<lambda>r. lt (the_cell (columns t) (snd r) name) thr) reason
                (columns t) (rows t))"
proof (rule for_rows_drop_all)
  show "distinct (map fst (rows t))" using assms(1) by (simp add: wf_table_def)
next
  fix r assume "r \<in> set (rows t)"
  then show "MEAN_STRAIGHT_LINE_SPEED \<in> set (columns t) \<and> length (snd r) = length (columns t)"
    using assms(1,3) by (simp add: wf_table_def list_all_iff)
next
  fix r st assume "r \<in> set (rows t)"
  then show "threshold_body name thr reason (columns t) r st =
      (if lt (the_cell (columns t) (snd r) name) thr
       then drop_row (columns t) r reason st else Inr st)"
    using assms(1,2) by (simp add: threshold_body_def wf_table_cell)
qed

lemma duration_loop_closed:
  assumes "wf_table t" and "TRACK_DURATION \<in> set (columns t)"
    and "MEAN_STRAIGHT_LINE_SPEED \<in> set (columns t)"
  shows "for_rows (duration_body thr (columns t)) (rows t) (t, d) =
     Inr (t\<lparr>rows := filter (\<lambda>r. \<not> (lt (the_cell (columns t) (snd r) TRACK_DURATION) (Fin (of_int thr))
                    \<or> the_cell (columns t) (snd r) TRACK_DURATION = NaN)) (rows t)\<rparr>,
          d @ rejected_records (\<lambda>r. lt (the_cell (columns t) (snd r) TRACK_DURATION) (Fin (of_int thr))
                    \<or> the_cell (columns t) (snd r) TRACK_DURATION = NaN) ''DURATION_THRESHOLD''
                (columns t) (rows t))"
proof (rule for_rows_drop_all)
  show "distinct (map fst (rows t))" using assms(1) by (simp add: wf_table_def)
next
  fix r assume "r \<in> set (rows t)"
  then show "MEAN_STRAIGHT_LINE_SPEED \<in> set (columns t) \<and> length (snd r) = length (columns t)"
    using assms(1,3) by (simp add: wf_table_def list_all_iff)
next
  fix r st assume r: "r \<in> set (rows t)"
  have nan: "\<And>d. ne d d = (d = NaN)"
    subgoal for d by (cases d) (simp_all add: ne_def)
    done
  show "duration_body thr (columns t) r st =
      (if lt (the_cell (columns t) (snd r) TRACK_DURATION) (Fin (of_int thr))
          \<or> the_cell (columns t) (snd r) TRACK_DURATION = NaN
       then drop_row (columns t) r ''DURATION_THRESHOLD'' st else Inr st)"
    using assms(1,2) r by (simp add: duration_body_def wf_table_cell nan)
qed

lemma outlier_loop_closed:
  assumes "wf_table t" and "MEAN_STRAIGHT_LINE_SPEED \<in> set (columns t)"
  shows "for_rows (outlier_body k thr flags ms sps reason (columns t)) (rows t) (t, d) =
     Inr (t\<lparr>rows := filter (\<lambda>r. \<not> outlier_scan k thr (zip (snd r) (zip ms (zip sps flags))) \<noteq> None) (rows t)\<rparr>,
          d @ rejected_records (\<lambda>r. outlier_scan k thr (zip (snd r) (zip ms (zip sps flags))) \<noteq> None)
                reason (columns t) (rows t))"
proof (rule for_rows_drop_all)
  show "distinct (map fst (rows t))" using assms(1) by (simp add: wf_table_def)
next
  fix r assume "r \<in> set (rows t)"
  then show "MEAN_STRAIGHT_LINE_SPEED \<in> set (columns t) \<and> length (snd r) = length (columns t)"
    using assms by (simp add: wf_table_def list_all_iff)
next
  fix r st
  show "outlier_body k thr flags ms sps reason (columns t) r st =
      (if outlier_scan k thr (zip (snd r) (zip ms (zip sps flags))) \<noteq> None
       then drop_row (columns t) r reason st else Inr st)"
    by (cases "outlier_scan k thr (zip (snd r) (zip ms (zip sps flags)))")
       (simp_all add: outlier_body_def)
qed

lemma null_loop_closed:
  assumes "distinct (map fst (rows c))"
    and "distinct (map fst rs)"
    and "set rs \<subseteq> set (rows c)"
    and "\<And>r. r \<in> set rs \<Longrightarrow> TRACK_DURATION \<in> set cols \<and> length (snd r) = length cols"
  shows "for_rows (null_body cols) rs c =
     Inr (c\<lparr>rows := filter (\<lambda>r. \<not> (r \<in> set rs \<and> the_cell cols (snd r) TRACK_DURATION = NaN)) (rows c)\<rparr>)"
  using assms
proof (induction rs arbitrary: c)
  case Nil
  then show ?case by simp
next
  case (Cons r rs)
  have drs: "distinct (map fst rs)" and rnot: "fst r \<notin> fst ` set rs"
    using Cons.prems(2) by simp_all
  have inr: "r \<in> set (rows c)" using Cons.prems(3) by simp
  have cellr: "cell cols (snd r) TRACK_DURATION = Inr (the_cell cols (snd r) TRACK_DURATION)"
    using Cons.prems(4)[of r] by (simp add: cell_defined)
  have nan: "\<And>d. ne d d = (d = NaN)"
    subgoal for d by (cases d) (simp_all add: ne_def)
    done
  show ?case
  proof (cases "the_cell cols (snd r) TRACK_DURATION = NaN")
    case False
    have "for_rows (null_body cols) (r # rs) c = for_rows (null_body cols) rs c"
      using False cellr by (simp add: null_body_def nan)
    also have "\<dots> = Inr (c\<lparr>rows := filter (\<lambda>x. \<not> (x \<in> set rs \<and> the_cell cols (snd x) TRACK_DURATION = NaN)) (rows c)\<rparr>)"
      using Cons.prems drs by (intro Cons.IH) auto
    finally have eq0: "for_rows (null_body cols) (r # rs) c =
      Inr (c\<lparr>rows := filter (\<lambda>x. \<not> (x \<in> set rs \<and> the_cell cols (snd x) TRACK_DURATION = NaN)) (rows c)\<rparr>)" .
    have rows_eq: "filter (\<lambda>x. \<not> (x \<in> set rs \<and> the_cell cols (snd x) TRACK_DURATION = NaN)) (rows c)
        = filter (\<lambda>x. \<not> (x \<in> set (r # rs) \<and> the_cell cols (snd x) TRACK_DURATION = NaN)) (rows c)"
      using False by (auto intro: filter_cong)
    show ?thesis unfolding eq0 using rows_eq by simp
  next
    case True
    let ?c' = "c\<lparr>rows := filter (\<lambda>x. fst x \<noteq> fst r) (rows c)\<rparr>"
    have step: "null_body cols r c = Inr ?c'"
      using True cellr inr by (simp add: null_body_def nan drop_labels_single)
    have sub: "set rs \<subseteq> set (rows ?c')"
    proof
      fix x assume x: "x \<in> set rs"
      then have "fst x \<in> fst ` set rs" by simp
      then have "fst x \<noteq> fst r" using rnot by metis
      moreover have "x \<in> set (rows c)" using x Cons.prems(3) by auto
      ultimately show "x \<in> set (rows ?c')" by simp
    qed
    have "for_rows (null_body cols) (r # rs) c = for_rows (null_body cols) rs ?c'"
      using step by simp
    also have "\<dots> = Inr (?c'\<lparr>rows := filter (\<lambda>x. \<not> (x \<in> set rs \<and> the_cell cols (snd x) TRACK_DURATION = NaN)) (rows ?c')\<rparr>)"
      using Cons.prems sub drs by (intro Cons.IH) (auto simp: distinct_map_filter)
    finally have eq1: "for_rows (null_body cols) (r # rs) c =
       Inr (?c'\<lparr>rows := filter (\<lambda>x. \<not> (x \<in> set rs \<and> the_cell cols (snd x) TRACK_DURATION = NaN)) (rows ?c')\<rparr>)" .
    have same: "\<And>x. x \<in> set (rows c) \<Longrightarrow> (fst x = fst r) = (x = r)"
      using Cons.prems(1) inr by (auto simp: distinct_map inj_on_def)
    have rows_eq: "filter (\<lambda>x. \<not> (x \<in> set rs \<and> the_cell cols (snd x) TRACK_DURATION = NaN)) (rows ?c')
        = filter (\<lambda>x. \<not> (x \<in> set (r # rs) \<and> the_cell cols (snd x) TRACK_DURATION = NaN)) (rows c)"
    proof -
      have "filter (\<lambda>x. \<not> (x \<in> set rs \<and> the_cell cols (snd x) TRACK_DURATION = NaN)) (rows ?c')
        = filter (\<lambda>x. fst x \<noteq> fst r
             \<and> \<not> (x \<in> set rs \<and> the_cell cols (snd x) TRACK_DURATION = NaN)) (rows c)"
        by (simp add: conj_commute)
      also have "\<dots> = filter (\<lambda>x. \<not> (x \<in> set (r # rs) \<and> the_cell cols (snd x) TRACK_DURATION = NaN)) (rows c)"
      proof (rule filter_cong[OF refl])
        fix x assume "x \<in> set (rows c)"
        then have "(fst x = fst r) = (x = r)" by (rule same)
        then show "(fst x \<noteq> fst r \<and> \<not> (x \<in> set rs \<and> the_cell cols (snd x) TRACK_DURATION = NaN))
            = (\<not> (x \<in> set (r # rs) \<and> the_cell cols (snd x) TRACK_DURATION = NaN))"
          using True by auto
      qed
      finally show ?thesis .
    qed
    show ?thesis unfolding eq1 using rows_eq by simp
  qed
qed

lemma null_filter_closed:
  assumes "wf_table t" and "TRACK_DURATION \<in> set (columns t)"
  shows "null_filter t =
     Inr (t\<lparr>rows := filter (\<lambda>r. the_cell (columns t) (snd r) TRACK_DURATION \<noteq> NaN) (rows t)\<rparr>)"
proof -
  have d: "distinct (map fst (rows t))" using assms(1) by (simp add: wf_table_def)
  have l: "\<And>r. r \<in> set (rows t) \<Longrightarrow> TRACK_DURATION \<in> set (columns t) \<and> length (snd r) = length (columns t)"
    using assms by (simp add: wf_table_def list_all_iff)
  have "filter (\<lambda>r. \<not> (r \<in> set (rows t) \<and> the_cell (columns t) (snd r) TRACK_DURATION = NaN)) (rows t)
      = filter (\<lambda>r. the_cell (columns t) (snd r) TRACK_DURATION \<noteq> NaN) (rows t)"
    by (auto intro: filter_cong)
  then show ?thesis
    unfolding null_filter_def
    using null_loop_closed[OF d d subset_refl, of "columns t"] l by simp
qed

lemma quality_stage_closed:
  assumes "wf_table (csv s)"
    and "''TRACK_MEAN_QUALITY'' \<in> set (columns (csv s))"
    and "MEAN_STRAIGHT_LINE_SPEED \<in> set (columns (csv s))"
    and "do_quality_percentile_filter cfg"
    and "np_percentile (percentile_of_empty cfg)
           (map (\<lambda>r. the_cell (columns (csv s)) (snd r) ''TRACK_MEAN_QUALITY'') (rows (csv s)))
           (quality_percentile_filter cfg) = Inr thr"
  shows "quality_stage cfg s =
     Inr (overfiltering_guard (s\<lparr>backup := csv s,
       csv := (csv s)\<lparr>rows := filter
         (\<lambda>r. \<not> lt (the_cell (columns (csv s)) (snd r) ''TRACK_MEAN_QUALITY'') thr) (rows (csv s))\<rparr>,
       dropped_row_indices := dropped_row_indices s @ rejected_records
         (\<lambda>r. lt (the_cell (columns (csv s)) (snd r) ''TRACK_MEAN_QUALITY'') thr)
         ''QUALITY_PERCENTILE'' (columns (csv s)) (rows (csv s))\<rparr>))"
  using assms
  by (simp add: quality_stage_def end_try_def column_closed threshold_loop_closed)

lemma std_stage_closed:
  assumes "wf_table (csv s)"
    and "MEAN_STRAIGHT_LINE_SPEED \<in> set (columns (csv s))"
    and "flagged_stats series_std (csv s) flags = Inr std_values"
    and "flagged_stats series_mean (csv s) flags = Inr mean_values"
  shows "std_stage speed_threshold (Some flags) s =
     Inr (overfiltering_guard (s\<lparr>backup := csv s,
       csv := (csv s)\<lparr>rows := filter
         (\<lambda>r. \<not> outlier_scan 2 speed_threshold
                  (zip (snd r) (zip mean_values (zip std_values flags))) \<noteq> None) (rows (csv s))\<rparr>,
       dropped_row_indices := dropped_row_indices s @ rejected_records
         (\<lambda>r. outlier_scan 2 speed_threshold
                  (zip (snd r) (zip mean_values (zip std_values flags))) \<noteq> None)
         ''INTERNAL_STD_FILTERING'' (columns (csv s)) (rows (csv s))\<rparr>))"
  using assms
  by (simp add: std_stage_def end_try_def outlier_loop_closed)

lemma iqr_stage_closed:
  assumes "wf_table (csv s)"
    and "MEAN_STRAIGHT_LINE_SPEED \<in> set (columns (csv s))"
    and "length flags = length (columns (csv s))"
    and "iqr_stats (percentile_of_empty cfg) (csv s) flags = Inr iqr_values"
    and "iqr_means (csv s) flags = Inr mean_values"
  shows "iqr_stage cfg speed_threshold (Some flags) s =
     Inr (overfiltering_guard (s\<lparr>backup := csv s,
       csv := (csv s)\<lparr>rows := filter
         (\<lambda>r. \<not> outlier_scan (3 / 2) speed_threshold
                  (zip (snd r) (zip mean_values (zip iqr_values flags))) \<noteq> None) (rows (csv s))\<rparr>,
       dropped_row_indices := dropped_row_indices s @ rejected_records
         (\<lambda>r. outlier_scan (3 / 2) speed_threshold
                  (zip (snd r) (zip mean_values (zip iqr_values flags))) \<noteq> None)
         ''INTERNAL_IQR_FILTERING'' (columns (csv s)) (rows (csv s))\<rparr>))"
  using assms
  by (simp add: iqr_stage_def end_try_def outlier_loop_closed)

lemma guard_snapshot [simp]:
  "overfiltering_guard (s\<lparr>backup := csv s\<rparr>) = s\<lparr>backup := csv s\<rparr>"
  by (simp add: overfiltering_guard_def)

lemma duration_stage_off:
  "\<not> do_duration_thresh cfg \<Longrightarrow> duration_stage cfg s = Inr (s\<lparr>backup := csv s\<rparr>)"
  by (simp add: duration_stage_def end_try_def)

lemma speed_stage_off:
  "\<not> do_speed_thresh cfg \<Longrightarrow> speed_stage cfg thr s = Inr (overfiltering_guard s)"
  by (simp add: speed_stage_def end_try_def)

lemma displacement_stage_off:
  "\<not> do_displacement_thresh cfg \<Longrightarrow> displacement_stage cfg thr s = Inr (s\<lparr>backup := csv s\<rparr>)"
  by (simp add: displacement_stage_def end_try_def)

lemma linearity_stage_off:
  "\<not> do_linearity_thresh cfg \<Longrightarrow> linearity_stage cfg thr s = Inr (s\<lparr>backup := csv s\<rparr>)"
  by (simp add: linearity_stage_def end_try_def)

lemma quality_stage_off:
  "\<not> do_quality_percentile_filter cfg \<Longrightarrow> quality_stage cfg s = Inr (s\<lparr>backup := csv s\<rparr>)"
  by (simp add: quality_stage_def end_try_def)

lemma std_stage_off: "std_stage thr None s = Inr (s\<lparr>backup := csv s\<rparr>)"
  by (simp add: std_stage_def end_try_def)

lemma iqr_stage_off: "iqr_stage cfg thr None s = Inr (s\<lparr>backup := csv s\<rparr>)"
  by (simp add: iqr_stage_def end_try_def)

lemma duration_stage_closed:
  assumes "wf_table (csv s)" and "TRACK_DURATION \<in> set (columns (csv s))"
    and "MEAN_STRAIGHT_LINE_SPEED \<in> set (columns (csv s))"
    and "do_duration_thresh cfg"
  shows "duration_stage cfg s =
     Inr (overfiltering_guard (s\<lparr>backup := csv s,
       csv := (csv s)\<lparr>rows := filter
         (\<lambda>r. \<not> (lt (the_cell (columns (csv s)) (snd r) TRACK_DURATION)
                    (Fin (of_int (duration_threshold cfg)))
                \<or> the_cell (columns (csv s)) (snd r) TRACK_DURATION = NaN)) (rows (csv s))\<rparr>,
       dropped_row_indices := dropped_row_indices s @ rejected_records
         (\<lambda>r. lt (the_cell (columns (csv s)) (snd r) TRACK_DURATION)
                    (Fin (of_int (duration_threshold cfg)))
                \<or> the_cell (columns (csv s)) (snd r) TRACK_DURATION = NaN)
         ''DURATION_THRESHOLD'' (columns (csv s)) (rows (csv s))\<rparr>))"
  using assms
  by (simp add: duration_stage_def end_try_def duration_loop_closed)

lemma speed_stage_closed:
  assumes "wf_table (csv s)"
    and "MEAN_STRAIGHT_LINE_SPEED \<in> set (columns (csv s))"
    and "do_speed_thresh cfg"
  shows "speed_stage cfg thr s =
     Inr (overfiltering_guard (s\<lparr>
       csv := (csv s)\<lparr>rows := filter
         (\<lambda>r. \<not> lt (the_cell (columns (csv s)) (snd r) MEAN_STRAIGHT_LINE_SPEED) thr) (rows (csv s))\<rparr>,
       dropped_row_indices := dropped_row_indices s @ rejected_records
         (\<lambda>r. lt (the_cell (columns (csv s)) (snd r) MEAN_STRAIGHT_LINE_SPEED) thr)
         ''SPEED_THRESHOLD'' (columns (csv s)) (rows (csv s))\<rparr>))"
  using assms
  by (simp add: speed_stage_def end_try_def threshold_loop_closed)

lemma displacement_stage_closed:
  assumes "wf_table (csv s)"
    and "''TRACK_DISPLACEMENT'' \<in> set (columns (csv s))"
    and "MEAN_STRAIGHT_LINE_SPEED \<in> set (columns (csv s))"
    and "do_displacement_thresh cfg"
  shows "displacement_stage cfg thr s =
     Inr (overfiltering_guard (s\<lparr>backup := csv s,
       csv := (csv s)\<lparr>rows := filter
         (\<lambda>r. \<not> lt (the_cell (columns (csv s)) (snd r) ''TRACK_DISPLACEMENT'') thr) (rows (csv s))\<rparr>,
       dropped_row_indices := dropped_row_indices s @ rejected_records
         (\<lambda>r. lt (the_cell (columns (csv s)) (snd r) ''TRACK_DISPLACEMENT'') thr)
         ''DISPLACEMENT_THRESHOLD'' (columns (csv s)) (rows (csv s))\<rparr>))"
  using assms
  by (simp add: displacement_stage_def end_try_def threshold_loop_closed)

lemma linearity_stage_closed:
  assumes "wf_table (csv s)"
    and "''LINEARITY_OF_FORWARD_PROGRESSION'' \<in> set (columns (csv s))"
    and "MEAN_STRAIGHT_LINE_SPEED \<in> set (columns (csv s))"
    and "do_linearity_thresh cfg"
  shows "linearity_stage cfg thr s =
     Inr (overfiltering_guard (s\<lparr>backup := csv s,
       csv := (csv s)\<lparr>rows := filter
         (\<lambda>r. \<not> lt (the_cell (columns (csv s)) (snd r) ''LINEARITY_OF_FORWARD_PROGRESSION'') thr)
         (rows (csv s))\<rparr>,
       dropped_row_indices := dropped_row_indices s @ rejected_records
         (\<lambda>r. lt (the_cell (columns (csv s)) (snd r) ''LINEARITY_OF_FORWARD_PROGRESSION'') thr)
         ''LINEARITY_THRESHOLD'' (columns (csv s)) (rows (csv s))\<rparr>))"
  using assms
  by (simp add: linearity_stage_def end_try_def threshold_loop_closed)

lemma drop_row_shape:
  assumes "drop_row cols r reason st = Inr st'"
  shows "\<exists>v. st' = ((fst st)\<lparr>rows := filter (\<lambda>x. fst x \<noteq> fst r) (rows (fst st))\<rparr>,
                   snd st @ [(fst r, v, reason)])"
  using assms
  by (auto simp: drop_row_def drop_labels_def split: sum.splits if_splits)

lemma drop_row_not_RuntimeError: "drop_row cols r reason st \<noteq> Inl RuntimeError"
  by (auto simp: drop_row_def drop_labels_def cell_def split: sum.splits if_splits option.splits)

lemma for_rows_not_RuntimeError:
  "(\<And>r st. body r st \<noteq> Inl RuntimeError) \<Longrightarrow> for_rows body rs st \<noteq> Inl RuntimeError"
  by (induction rs arbitrary: st) (auto split: sum.splits)

lemma for_rows_drop_not_RuntimeError:
  "for_rows (duration_body thr cols) rs st \<noteq> Inl RuntimeError"
  "for_rows (threshold_body name t reason cols) rs st \<noteq> Inl RuntimeError"
  "for_rows (outlier_body k sp flags ms sps reason cols) rs st \<noteq> Inl RuntimeError"
proof -
  have c: "\<And>vals n. cell cols vals n \<noteq> Inl RuntimeError"
    by (simp add: cell_def split: option.splits)
  show "for_rows (duration_body thr cols) rs st \<noteq> Inl RuntimeError"
    by (rule for_rows_not_RuntimeError)
       (use c in \<open>auto simp: duration_body_def drop_row_not_RuntimeError split: sum.splits\<close>)
  show "for_rows (threshold_body name t reason cols) rs st \<noteq> Inl RuntimeError"
    by (rule for_rows_not_RuntimeError)
       (use c in \<open>auto simp: threshold_body_def drop_row_not_RuntimeError split: sum.splits\<close>)
  show "for_rows (outlier_body k sp flags ms sps reason cols) rs st \<noteq> Inl RuntimeError"
    by (rule for_rows_not_RuntimeError)
       (auto simp: outlier_body_def drop_row_not_RuntimeError split: option.splits)
qed

lemma for_rows_labels:
  assumes "drops_rows body" and "for_rows body rs st = Inr st'"
  shows "labels (fst st') \<subseteq> labels (fst st)
     \<and> fst ` set (snd st') \<subseteq> fst ` set (snd st) \<union> fst ` set rs"
  using assms(2)
proof (induction rs arbitrary: st)
  case Nil
  then show ?case by simp
next
  case (Cons r rs)
  from Cons.prems obtain st1 where b: "body r st = Inr st1" and f: "for_rows body rs st1 = Inr st'"
    by (auto split: sum.splits)
  from Cons.IH[OF f] have ih: "labels (fst st') \<subseteq> labels (fst st1)"
      "fst ` set (snd st') \<subseteq> fst ` set (snd st1) \<union> fst ` set rs" by simp_all
  from assms(1) b have "st1 = st \<or> (\<exists>v reason. st1 =
          ((fst st)\<lparr>rows := filter (\<lambda>x. fst x \<noteq> fst r) (rows (fst st))\<rparr>,
           snd st @ [(fst r, v, reason)]))"
    unfolding drops_rows_def by blast
  then have st1: "labels (fst st1) \<subseteq> labels (fst st)"
      "fst ` set (snd st1) \<subseteq> fst ` set (snd st) \<union> {fst r}"
    by (auto simp: labels_def)
  have "labels (fst st') \<subseteq> labels (fst st)" using ih(1) st1(1) by blast
  moreover have "fst ` set (snd st') \<subseteq> fst ` set (snd st) \<union> fst ` set (r # rs)"
    using ih(2) st1(2) by (simp add: subset_iff) blast
  ultimately show ?case by simp
qed

lemma drops_rows_bodies:
  "drops_rows (duration_body thr cols)"
  "drops_rows (threshold_body name t rsn cols)"
  "drops_rows (outlier_body k sp flags ms sps rsn cols)"
  unfolding drops_rows_def
  by (auto simp: duration_body_def threshold_body_def outlier_body_def
           split: sum.splits if_splits option.splits dest: drop_row_shape)

lemma loop_labels:
  assumes "for_rows body (rows c) (c, d) = Inr st" and "drops_rows body"
    and "labels c \<subseteq> L" and "fst ` set d \<subseteq> L"
  shows "labels (fst st) \<subseteq> L \<and> fst ` set (snd st) \<subseteq> L"
proof -
  have a: "labels (fst st) \<subseteq> labels c" "fst ` set (snd st) \<subseteq> fst ` set d \<union> labels c"
    using for_rows_labels[OF assms(2) assms(1)] by (simp_all add: labels_def)
  show ?thesis using a assms(3,4) by blast
qed

lemma end_try_labels:
  assumes "end_try s r = Inr s'"
    and "\<And>st. r = Inr st \<Longrightarrow> labels (fst st) \<subseteq> L \<and> fst ` set (snd st) \<subseteq> L"
    and "labels (backup s) \<subseteq> L" and "fst ` set (dropped_row_indices s) \<subseteq> L"
  shows "labels (csv s') \<subseteq> L \<and> labels (backup s') \<subseteq> L \<and> fst ` set (dropped_row_indices s') \<subseteq> L"
proof (cases r)
  case (Inl e)
  with assms(1) have "s' = s\<lparr>csv := backup s\<rparr>"
    by (simp add: end_try_def split: if_splits)
  with assms(3,4) show ?thesis by simp
next
  case (Inr st)
  with assms(1) have s': "s' = overfiltering_guard (s\<lparr>csv := fst st, dropped_row_indices := snd st\<rparr>)"
    by (simp add: end_try_def)
  from assms(2)[OF Inr] assms(3) show ?thesis
    unfolding s' by (simp add: overfiltering_guard_def)
qed

lemma guarded_labels:
  assumes "end_try s0 r = Inr s'"
    and "\<And>st. r = Inr st \<Longrightarrow>
       st = (c, d) \<or> (\<exists>body. for_rows body (rows c) (c, d) = Inr st \<and> drops_rows body)"
    and "labels c \<subseteq> L" and "fst ` set d \<subseteq> L"
    and "labels (backup s0) \<subseteq> L" and "fst ` set (dropped_row_indices s0) \<subseteq> L"
  shows "labels (csv s') \<subseteq> L \<and> labels (backup s') \<subseteq> L \<and> fst ` set (dropped_row_indices s') \<subseteq> L"
proof (rule end_try_labels[OF assms(1) _ assms(5,6)])
  fix st assume "r = Inr st"
  from assms(2)[OF this] show "labels (fst st) \<subseteq> L \<and> fst ` set (snd st) \<subseteq> L"
  proof
    assume "st = (c, d)" then show ?thesis using assms(3,4) by simp
  next
    assume "\<exists>body. for_rows body (rows c) (c, d) = Inr st \<and> drops_rows body"
    then obtain body where "for_rows body (rows c) (c, d) = Inr st" "drops_rows body" by blast
    then show ?thesis by (rule loop_labels) (use assms(3,4) in simp_all)
  qed
qed

lemma stage_labels:
  assumes "labels (csv s) \<subseteq> L" and "fst ` set (dropped_row_indices s) \<subseteq> L"
  shows "duration_stage cfg s = Inr s' \<Longrightarrow>
      labels (csv s') \<subseteq> L \<and> labels (backup s') \<subseteq> L \<and> fst ` set (dropped_row_indices s') \<subseteq> L"
    and "labels (backup s) \<subseteq> L \<Longrightarrow> speed_stage cfg thr s = Inr s' \<Longrightarrow>
      labels (csv s') \<subseteq> L \<and> labels (backup s') \<subseteq> L \<and> fst ` set (dropped_row_indices s') \<subseteq> L"
    and "displacement_stage cfg thr s = Inr s' \<Longrightarrow>
      labels (csv s') \<subseteq> L \<and> labels (backup s') \<subseteq> L \<and> fst ` set (dropped_row_indices s') \<subseteq> L"
    and "linearity_stage cfg thr s = Inr s' \<Longrightarrow>
      labels (csv s') \<subseteq> L \<and> labels (backup s') \<subseteq> L \<and> fst ` set (dropped_row_indices s') \<subseteq> L"
    and "quality_stage cfg s = Inr s' \<Longrightarrow>
      labels (csv s') \<subseteq> L \<and> labels (backup s') \<subseteq> L \<and> fst ` set (dropped_row_indices s') \<subseteq> L"
    and "std_stage thr sf s = Inr s' \<Longrightarrow>
      labels (csv s') \<subseteq> L \<and> labels (backup s') \<subseteq> L \<and> fst ` set (dropped_row_indices s') \<subseteq> L"
    and "iqr_stage cfg thr sf s = Inr s' \<Longrightarrow>
      labels (csv s') \<subseteq> L \<and> labels (backup s') \<subseteq> L \<and> fst ` set (dropped_row_indices s') \<subseteq> L"
proof -
  note gl = guarded_labels[where c = "csv s" and d = "dropped_row_indices s" and L = L]
  show "duration_stage cfg s = Inr s' \<Longrightarrow>
      labels (csv s') \<subseteq> L \<and> labels (backup s') \<subseteq> L \<and> fst ` set (dropped_row_indices s') \<subseteq> L"
    unfolding duration_stage_def Let_def
    by (erule gl) (use assms in \<open>auto split: if_splits intro: drops_rows_bodies\<close>)
  show "labels (backup s) \<subseteq> L \<Longrightarrow> speed_stage cfg thr s = Inr s' \<Longrightarrow>
      labels (csv s') \<subseteq> L \<and> labels (backup s') \<subseteq> L \<and> fst ` set (dropped_row_indices s') \<subseteq> L"
  proof -
    assume b: "labels (backup s) \<subseteq> L" and e: "speed_stage cfg thr s = Inr s'"
    show ?thesis
      by (rule gl[OF e[unfolded speed_stage_def]])
         (use assms b in \<open>auto split: if_splits intro: drops_rows_bodies\<close>)
  qed
  show "displacement_stage cfg thr s = Inr s' \<Longrightarrow>
      labels (csv s') \<subseteq> L \<and> labels (backup s') \<subseteq> L \<and> fst ` set (dropped_row_indices s') \<subseteq> L"
    unfolding displacement_stage_def Let_def
    by (erule gl) (use assms in \<open>auto split: if_splits intro: drops_rows_bodies\<close>)
  show "linearity_stage cfg thr s = Inr s' \<Longrightarrow>
      labels (csv s') \<subseteq> L \<and> labels (backup s') \<subseteq> L \<and> fst ` set (dropped_row_indices s') \<subseteq> L"
    unfolding linearity_stage_def Let_def
    by (erule gl) (use assms in \<open>auto split: if_splits intro: drops_rows_bodies\<close>)
  show "quality_stage cfg s = Inr s' \<Longrightarrow>
      labels (csv s') \<subseteq> L \<and> labels (backup s') \<subseteq> L \<and> fst ` set (dropped_row_indices s') \<subseteq> L"
    unfolding quality_stage_def Let_def
    by (erule gl) (use assms in \<open>auto split: if_splits sum.splits intro: drops_rows_bodies\<close>)
  show "std_stage thr sf s = Inr s' \<Longrightarrow>
      labels (csv s') \<subseteq> L \<and> labels (backup s') \<subseteq> L \<and> fst ` set (dropped_row_indices s') \<subseteq> L"
    unfolding std_stage_def Let_def
    by (erule gl)
       (use assms in \<open>auto split: if_splits sum.splits option.splits intro: drops_rows_bodies\<close>)
  show "iqr_stage cfg thr sf s = Inr s' \<Longrightarrow>
      labels (csv s') \<subseteq> L \<and> labels (backup s') \<subseteq> L \<and> fst ` set (dropped_row_indices s') \<subseteq> L"
    unfolding iqr_stage_def Let_def
    by (erule gl)
       (use assms in \<open>auto split: if_splits sum.splits option.splits intro: drops_rows_bodies\<close>)
qed

lemma map_exn_length: "map_exn f xs = Inr ys \<Longrightarrow> length ys = length xs"
  by (induction xs arbitrary: ys) (auto split: sum.splits)

lemma length_col_names [simp]: "length col_names = 7"
  by (simp add: col_names_def)

lemma length_extra_columns [simp]: "length extra_columns = 3"
  by (simp add: extra_columns_def)

lemma summarize_initial:
  assumes "summarize cfg c n = Inr out"
  shows "fst out ! length col_names = Some (Fin (real n))"
proof -
  from assms obtain cs where cs: "map_exn (column c) col_names = Inr cs"
    and out: "summarize cfg c n = bind_exn (Inr cs) (\<lambda>cs. Inr out)"
    by (auto simp: summarize_def Let_def bind_exn_def split: sum.splits)
  have len: "length cs = 7" using map_exn_length[OF cs] by simp
  show ?thesis
    using assms cs len by (auto simp: summarize_def Let_def)
qed

lemma discard_duration_labels: "discard_duration c = Inr c' \<Longrightarrow> labels c' = labels c"
proof -
  assume a: "discard_duration c = Inr c'"
  then obtain t1 where t1: "drop_columns [TRACK_DURATION] c = Inr t1" and c': "c' = t1"
    by (auto simp: discard_duration_def dest!: bind_exn_eq_Inr split: if_splits)
  from t1 have "map fst (rows t1) = map fst (rows c)"
    by (auto simp: drop_columns_def comp_def split: if_splits)
  then have "set (map fst (rows t1)) = set (map fst (rows c))" by simp
  then show ?thesis unfolding c' labels_def by simp
qed


section \<open>The upper bound of the std and IQR stages\<close>

text \<open>
  Claim C3. When \<^verbatim>\<open>do_file\<close> is called with a speed threshold other than 0.0 (a treatment
  condition), the scan of a row in the std stage (\<open>k = 2\<close>) and in the IQR stage
  (\<open>k = 3/2\<close>) never rejects the row through the upper-bound branch: the row is rejected
  exactly when one of its cells lies below the mean minus \<open>k\<close> times the spread of its
  column. A rejection through the upper-bound branch therefore needs a speed threshold
  equal to 0.0.
\<close>

theorem upper_bound_only_for_control:
  assumes "\<not> eq speed_threshold (Fin 0)"
  shows "outlier_scan k speed_threshold zs \<noteq> Some Upper
    \<and> (outlier_scan k speed_threshold zs \<noteq> None) =
        (\<exists>z \<in> set zs. lt (fst z) (sub (fst (snd z)) (mul (Fin k) (fst (snd (snd z))))))"
  using assms by (induction zs) (auto split: if_splits)

theorem upper_bound_only_for_control_witness:
  "\<not> eq (Fin (1 / 20)) (Fin 0)
    \<and> outlier_scan 2 (Fin (1 / 20)) [(Fin 100, Fin 1, Fin 1, True)] \<noteq> Some Upper
    \<and> outlier_scan 2 (Fin (1 / 20)) [(Fin 100, Fin 1, Fin 1, True)] = None
    \<and> outlier_scan 2 (Fin 0) [(Fin 100, Fin 1, Fin 1, True)] = Some Upper"
  using upper_bound_only_for_control [of "Fin (1 / 20)" 2 "[(Fin 100, Fin 1, Fin 1, True)]"]
  by simp

section \<open>The control-first protocol\<close>

lemma positions:
  "position ''MEAN_STRAIGHT_LINE_SPEED'' = 5"
  "position ''TRACK_DISPLACEMENT'' = 0"
  "position ''LINEARITY_OF_FORWARD_PROGRESSION'' = 6"
  "position ''TRACK_MEAN_QUALITY'' = 3"
  by (simp_all add: position_def col_names_def)

lemma other_files_fixed_thresholds:
  assumes "\<And>p. p \<in> set xs \<Longrightarrow> fst p \<noteq> 0"
  shows "analyze_files cfg read_csv True xs st = treat_conditions cfg read_csv (globs st) xs st"
  using assms
proof (induction xs arbitrary: st)
  case Nil
  then show ?case by simp
next
  case (Cons p xs)
  obtain i name where p: "p = (i, name)" by (cases p)
  have i: "i \<noteq> 0" using Cons.prems[of p] p by simp
  have ih: "\<And>st'. analyze_files cfg read_csv True xs st' = treat_conditions cfg read_csv (globs st') xs st'"
    using Cons.prems by (intro Cons.IH) auto
  show ?case
    unfolding p using i
    by (cases "do_file cfg (globs st) read_csv name
          (brownian_displacement_threshold (globs st))
          (brownian_speed_threshold (globs st))
          (brownian_linearity_threshold (globs st))
          (do_std_filter_flags cfg) (do_iqr_filter_flags cfg)")
       (auto simp: other_step_def ih bind_exn_def Let_def split: sum.splits)
qed

lemma globals_all_updated:
  "(g::globals)\<lparr>brownian_speed_threshold := a, brownian_displacement_threshold := b,
      quality_threshold := q, brownian_linearity_threshold := l\<rparr>
   = \<lparr>brownian_speed_threshold = a, brownian_displacement_threshold = b,
      brownian_linearity_threshold = l, quality_threshold = q\<rparr>"
  by (cases g) simp

lemma control_step_as_run:
  assumes "globs st = initial_globals"
  shows "control_step cfg read_csv 0 control st =
     bind_exn (control_run cfg read_csv control st)
       (\<lambda>st1. Inr (st1\<lparr>globs := derived_thresholds cfg (array st1 ! 0) (std_array st1 ! 0)\<rparr>))"
  using assms
  by (auto simp: control_step_def control_run_def bind_exn_def derived_thresholds_def
        positions globals_all_updated split: sum.splits)

text \<open>
  Claim C4. When a control file was found, \<^verbatim>\<open>main\<close> analyses it with the speed,
  displacement and linearity thresholds all 0.0, and analyses every later file with the
  thresholds derived from the control's summary: speed = control mean of
  \<^verbatim>\<open>MEAN_STRAIGHT_LINE_SPEED\<close> + multiplier * control std of \<^verbatim>\<open>MEAN_STRAIGHT_LINE_SPEED\<close>,
  displacement = control mean of \<^verbatim>\<open>TRACK_DISPLACEMENT\<close>, linearity = control mean of
  \<^verbatim>\<open>LINEARITY_OF_FORWARD_PROGRESSION\<close>. \<open>main\<close> equals the protocol \<open>control_first\<close>, which
  is written that way.
\<close>

theorem control_first_protocol:
  "main cfg read_csv True (control # others) = control_first cfg read_csv control others"
proof -
  let ?st0 = "initial_mstate (Suc (length others))"
  have g0: "globs ?st0 = initial_globals" by (simp add: initial_mstate_def)
  have en: "enumerate 0 (control # others) = (0, control) # enumerate 1 others"
    by (simp add: enumerate_eq_zip upt_rec)
  have nz: "\<And>p. p \<in> set (enumerate 1 others) \<Longrightarrow> fst p \<noteq> 0"
    by (auto simp: in_set_enumerate_eq)
  have of: "analyze_files cfg read_csv True (enumerate 1 others)
      = (\<lambda>st. treat_conditions cfg read_csv (globs st) (enumerate 1 others) st)"
    by (rule ext, rule other_files_fixed_thresholds, rule nz)
  have "main cfg read_csv True (control # others)
      = bind_exn (control_step cfg read_csv 0 control ?st0)
          (analyze_files cfg read_csv True (enumerate 1 others))"
    by (simp add: main_def en del: enumerate_simps)
  also have "\<dots> = bind_exn (control_step cfg read_csv 0 control ?st0)
          (\<lambda>st. treat_conditions cfg read_csv (globs st) (enumerate 1 others) st)"
    unfolding of ..
  also have "\<dots> = control_first cfg read_csv control others"
    by (cases "control_run cfg read_csv control ?st0")
       (simp_all add: control_step_as_run[OF g0] control_first_def Let_def)
  finally show ?thesis .
qed

section \<open>The duration column\<close>

lemma TRACK_DURATION_not_in_col_names: "TRACK_DURATION \<notin> set col_names"
  by (simp add: TRACK_DURATION_def col_names_def)

lemma check_order_col_names: "check_order b col_names 0 = Inr ()"
  by (simp add: col_names_def TRACK_DURATION_def)

lemma map_exn_cell_error:
  "map_exn (\<lambda>r. cell cols (snd r) name) rs = Inl e \<Longrightarrow> e = KeyError"
  by (induction rs) (auto simp: cell_def split: sum.splits option.splits)

lemma histogram_reads_cases:
  "histogram_reads cfg t = Inr () \<or> histogram_reads cfg t = Inl KeyError"
proof (cases "map_exn (\<lambda>r. cell (columns t) (snd r) MEAN_STRAIGHT_LINE_SPEED) (rows t)")
  case (Inl e)
  then show ?thesis using map_exn_cell_error[OF Inl] by (simp add: histogram_reads_def)
next
  case (Inr a)
  then show ?thesis by (simp add: histogram_reads_def)
qed

lemma filter_stages_without_duration:
  assumes "TRACK_DURATION \<notin> set (columns t)"
  shows "filter_stages cfg d sp l sf iqf t = Inl KeyError"
proof (cases "rows t")
  case Nil
  have nf: "null_filter t = Inr t" using Nil by (simp add: null_filter_def)
  have ds: "duration_stage cfg \<lparr>csv = t, backup = t, dropped_row_indices = []\<rparr>
      = Inr \<lparr>csv = t, backup = t, dropped_row_indices = []\<rparr>"
    using Nil by (simp add: duration_stage_def end_try_def overfiltering_guard_def Let_def)
  have dd: "discard_duration t = Inl KeyError"
    using assms by (simp add: discard_duration_def drop_columns_def)
  show ?thesis by (simp add: filter_stages_def nf ds dd)
next
  case (Cons r rs)
  have "null_filter t = Inl KeyError"
    using Cons assms by (simp add: null_filter_def null_body_def cell_missing)
  then show ?thesis by (simp add: filter_stages_def)
qed

lemma prepare_columns:
  assumes "filter (\<lambda>c. c \<in> set col_names) (columns t0) = col_names"
    and "TRACK_DURATION \<notin> set (columns t0)"
  shows "prepare t0 = Inl KeyError \<or> (\<exists>t. prepare t0 = Inr t \<and> columns t = col_names)"
proof -
  let ?names = "filter (\<lambda>c. c \<notin> set col_names \<and> c \<noteq> TRACK_DURATION) (columns t0)"
  have "filter (\<lambda>c. c \<notin> set ?names) (columns t0) = filter (\<lambda>c. c \<in> set col_names) (columns t0)"
    using assms(2) by (intro filter_cong) auto
  then have cols: "filter (\<lambda>c. c \<notin> set ?names) (columns t0) = col_names"
    using assms(1) by simp
  obtain t1 where t1: "drop_columns ?names t0 = Inr t1" and c1: "columns t1 = col_names"
    using cols by (auto simp: drop_columns_def)
  have "prepare t0 = drop_labels [0, 1, 2] t1"
    by (simp add: prepare_def t1 c1 check_order_col_names)
  then show ?thesis using c1
    by (cases "set [0, 1, 2] \<subseteq> fst ` set (rows t1)") (simp_all add: drop_labels_def)
qed

text \<open>
  Claim C9, as amended. For every input table that holds the seven required columns, in
  the order of \<^verbatim>\<open>col_names\<close>, and no \<^verbatim>\<open>TRACK_DURATION\<close> column, the per-file analysis
  raises KeyError: the null filter reads \<^verbatim>\<open>TRACK_DURATION\<close> from every row, and the column
  is dropped by name after the duration stage even when no row is left. The column is
  required.
\<close>

theorem track_duration_required:
  assumes "filter (\<lambda>c. c \<in> set col_names) (columns t0) = col_names"
    and "TRACK_DURATION \<notin> set (columns t0)"
  shows "analyse cfg g displacement_threshold speed_threshold linearity_threshold
           std_drop_flags iqr_drop_flags t0 = Inl KeyError"
proof -
  from prepare_columns[OF assms] show ?thesis
  proof
    assume "prepare t0 = Inl KeyError"
    then show ?thesis by (simp add: analyse_def)
  next
    assume "\<exists>t. prepare t0 = Inr t \<and> columns t = col_names"
    then obtain t where t: "prepare t0 = Inr t" "columns t = col_names" by blast
    have nd: "TRACK_DURATION \<notin> set (columns t)"
      using t(2) TRACK_DURATION_not_in_col_names by simp
    from histogram_reads_cases[of cfg t] show ?thesis
      by (auto simp: analyse_def t(1) filter_stages_without_duration[OF nd])
  qed
qed

section \<open>Rows without a duration\<close>

text \<open>
  Claim C10. Whatever the settings (so also with duration thresholding disabled), the
  null filter of lines 258-261 removes every row whose \<^verbatim>\<open>TRACK_DURATION\<close> is NaN before the
  first guarded stage runs. When the filtering part of \<^verbatim>\<open>do_file\<close> returns, such a row is
  neither in the final table nor in the drop records: no stage recorded it and no revert
  brought it back. When every row is of that kind the final table is empty. The rows
  are counted all the same in the initial row count that \<^verbatim>\<open>do_file\<close> reports.
\<close>

theorem nan_duration_rows_removed_unguarded:
  assumes "wf_table t" and "TRACK_DURATION \<in> set (columns t)"
    and "filter_stages cfg displacement_threshold speed_threshold linearity_threshold
           std_drop_flags iqr_drop_flags t = Inr s"
  shows "null_filter t =
        Inr (t\<lparr>rows := filter (\<lambda>r. the_cell (columns t) (snd r) TRACK_DURATION \<noteq> NaN) (rows t)\<rparr>)
    \<and> (\<forall>r \<in> set (rows t). the_cell (columns t) (snd r) TRACK_DURATION = NaN \<longrightarrow>
          fst r \<notin> labels (csv s) \<and> fst r \<notin> fst ` set (dropped_row_indices s))
    \<and> (list_all (\<lambda>r. the_cell (columns t) (snd r) TRACK_DURATION = NaN) (rows t) \<longrightarrow>
          rows (csv s) = [])
    \<and> (\<forall>g t0 out. prepare t0 = Inr t
          \<and> analyse cfg g displacement_threshold speed_threshold linearity_threshold
               std_drop_flags iqr_drop_flags t0 = Inr out
          \<longrightarrow> fst out ! length col_names = Some (Fin (real (length (rows t)))))"
proof -
  let ?t1 = "t\<lparr>rows := filter (\<lambda>r. the_cell (columns t) (snd r) TRACK_DURATION \<noteq> NaN) (rows t)\<rparr>"
  let ?L = "labels ?t1"
  have nf: "null_filter t = Inr ?t1" by (rule null_filter_closed[OF assms(1,2)])
  from assms(3) nf obtain s1 c s2 s3 s4 s5 s6 where
    s1: "duration_stage cfg \<lparr>csv = ?t1, backup = t, dropped_row_indices = []\<rparr> = Inr s1"
    and c: "discard_duration (csv s1) = Inr c"
    and s2: "speed_stage cfg speed_threshold (s1\<lparr>csv := c\<rparr>) = Inr s2"
    and s3: "displacement_stage cfg displacement_threshold s2 = Inr s3"
    and s4: "linearity_stage cfg linearity_threshold s3 = Inr s4"
    and s5: "quality_stage cfg s4 = Inr s5"
    and s6: "std_stage speed_threshold std_drop_flags s5 = Inr s6"
    and s7: "iqr_stage cfg speed_threshold iqr_drop_flags s6 = Inr s"
    unfolding filter_stages_def by (auto dest!: bind_exn_eq_Inr)
  have i1: "labels (csv s1) \<subseteq> ?L \<and> labels (backup s1) \<subseteq> ?L
      \<and> fst ` set (dropped_row_indices s1) \<subseteq> ?L"
    by (rule stage_labels(1)[OF _ _ s1]) simp_all
  have i2: "labels (csv s2) \<subseteq> ?L \<and> labels (backup s2) \<subseteq> ?L
      \<and> fst ` set (dropped_row_indices s2) \<subseteq> ?L"
    by (rule stage_labels(2)[OF _ _ _ s2]) (use i1 discard_duration_labels[OF c] in simp_all)
  have i3: "labels (csv s3) \<subseteq> ?L \<and> labels (backup s3) \<subseteq> ?L
      \<and> fst ` set (dropped_row_indices s3) \<subseteq> ?L"
    by (rule stage_labels(3)[OF _ _ s3]) (use i2 in simp_all)
  have i4: "labels (csv s4) \<subseteq> ?L \<and> labels (backup s4) \<subseteq> ?L
      \<and> fst ` set (dropped_row_indices s4) \<subseteq> ?L"
    by (rule stage_labels(4)[OF _ _ s4]) (use i3 in simp_all)
  have i5: "labels (csv s5) \<subseteq> ?L \<and> labels (backup s5) \<subseteq> ?L
      \<and> fst ` set (dropped_row_indices s5) \<subseteq> ?L"
    by (rule stage_labels(5)[OF _ _ s5]) (use i4 in simp_all)
  have i6: "labels (csv s6) \<subseteq> ?L \<and> labels (backup s6) \<subseteq> ?L
      \<and> fst ` set (dropped_row_indices s6) \<subseteq> ?L"
    by (rule stage_labels(6)[OF _ _ s6]) (use i5 in simp_all)
  have i7: "labels (csv s) \<subseteq> ?L \<and> fst ` set (dropped_row_indices s) \<subseteq> ?L"
    using stage_labels(7)[OF _ _ s7, of ?L] i6 by simp
  have dist: "distinct (map fst (rows t))" using assms(1) by (simp add: wf_table_def)
  have gone: "fst r \<notin> ?L"
    if r: "r \<in> set (rows t)" and n: "the_cell (columns t) (snd r) TRACK_DURATION = NaN" for r
  proof
    assume "fst r \<in> ?L"
    then obtain r' where r': "r' \<in> set (rows t)" "fst r' = fst r"
      and n': "the_cell (columns t) (snd r') TRACK_DURATION \<noteq> NaN"
      by (auto simp: labels_def)
    from dist r r'(1) r'(2) have "r' = r"
      by (auto simp: distinct_map inj_on_def)
    with n n' show False by simp
  qed
  have p2: "\<forall>r \<in> set (rows t). the_cell (columns t) (snd r) TRACK_DURATION = NaN \<longrightarrow>
          fst r \<notin> labels (csv s) \<and> fst r \<notin> fst ` set (dropped_row_indices s)"
    using gone i7 by blast
  have p3: "list_all (\<lambda>r. the_cell (columns t) (snd r) TRACK_DURATION = NaN) (rows t) \<longrightarrow>
          rows (csv s) = []"
  proof
    assume "list_all (\<lambda>r. the_cell (columns t) (snd r) TRACK_DURATION = NaN) (rows t)"
    then have "?L = {}" by (auto simp: labels_def list_all_iff)
    with i7 have "labels (csv s) = {}" by simp
    then show "rows (csv s) = []" by (simp add: labels_def)
  qed
  have p4: "\<forall>g t0 out. prepare t0 = Inr t
          \<and> analyse cfg g displacement_threshold speed_threshold linearity_threshold
               std_drop_flags iqr_drop_flags t0 = Inr out
          \<longrightarrow> fst out ! length col_names = Some (Fin (real (length (rows t))))"
  proof (intro allI impI, elim conjE)
    fix g t0 out
    assume p: "prepare t0 = Inr t"
      and a: "analyse cfg g displacement_threshold speed_threshold linearity_threshold
               std_drop_flags iqr_drop_flags t0 = Inr out"
    from a p assms(3) have "\<exists>u. summarize cfg (csv s) (length (rows t)) = Inr out"
      unfolding analyse_def by (auto dest!: bind_exn_eq_Inr)
    then show "fst out ! length col_names = Some (Fin (real (length (rows t))))"
      by (auto dest: summarize_initial)
  qed
  show ?thesis using nf p2 p3 p4 by blast
qed

section \<open>Statistics of the quality, std and IQR stages\<close>

text \<open>
  Claim C6. In the quality, std and IQR stages the percentile, the means, the standard
  deviations and the IQRs are computed once, from the table as the stage finds it. The
  loop that follows drops rows from the table in place, and still every row is judged
  against those values: the stage leaves exactly the rows that pass a test fixed at stage
  entry (\<open>stage_outcome\<close>), so dropping one row never changes the threshold that another
  row meets.
\<close>

theorem statistics_fixed_at_stage_entry:
  assumes "wf_table (csv s)" and "MEAN_STRAIGHT_LINE_SPEED \<in> set (columns (csv s))"
  shows "(do_quality_percentile_filter cfg \<and> ''TRACK_MEAN_QUALITY'' \<in> set (columns (csv s))
        \<and> np_percentile (percentile_of_empty cfg)
            (map (\<lambda>r. the_cell (columns (csv s)) (snd r) ''TRACK_MEAN_QUALITY'') (rows (csv s)))
            (quality_percentile_filter cfg) = Inr quality_percentile_threshold
      \<longrightarrow> quality_stage cfg s = Inr (stage_outcome
            (\<lambda>r. lt (the_cell (columns (csv s)) (snd r) ''TRACK_MEAN_QUALITY'')
                    quality_percentile_threshold)
            ''QUALITY_PERCENTILE'' s))
    \<and> (flagged_stats series_std (csv s) std_flags = Inr std_values
        \<and> flagged_stats series_mean (csv s) std_flags = Inr mean_values
      \<longrightarrow> std_stage speed_threshold (Some std_flags) s = Inr (stage_outcome
            (\<lambda>r. outlier_scan 2 speed_threshold
                    (zip (snd r) (zip mean_values (zip std_values std_flags))) \<noteq> None)
            ''INTERNAL_STD_FILTERING'' s))
    \<and> (length iqr_flags = length (columns (csv s))
        \<and> iqr_stats (percentile_of_empty cfg) (csv s) iqr_flags = Inr iqr_values
        \<and> iqr_means (csv s) iqr_flags = Inr iqr_mean_values
      \<longrightarrow> iqr_stage cfg speed_threshold (Some iqr_flags) s = Inr (stage_outcome
            (\<lambda>r. outlier_scan (3 / 2) speed_threshold
                    (zip (snd r) (zip iqr_mean_values (zip iqr_values iqr_flags))) \<noteq> None)
            ''INTERNAL_IQR_FILTERING'' s))"
  using assms
  by (simp add: stage_outcome_def quality_stage_closed std_stage_closed iqr_stage_closed)

section \<open>The examples, stage by stage\<close>

lemmas stage_eval = default_settings_def duration_stage_def speed_stage_def end_try_def
  overfiltering_guard_def duration_body_def threshold_body_def drop_row_def cell_def
  drop_labels_def drop_columns_def discard_duration_def bind_exn_def col_names_def
  TRACK_DURATION_def MEAN_STRAIGHT_LINE_SPEED_def Let_def ne_def
  null_filter_def null_body_def header_rows_def

lemma default_stages_off:
  "\<not> do_displacement_thresh default_settings" "\<not> do_linearity_thresh default_settings"
  "\<not> do_quality_percentile_filter default_settings"
  by (simp_all add: default_settings_def)

lemma later_stages_off:
  assumes "\<not> do_displacement_thresh cfg" "\<not> do_linearity_thresh cfg"
    "\<not> do_quality_percentile_filter cfg"
  shows "bind_exn (displacement_stage cfg d s2) (\<lambda>s3.
     bind_exn (linearity_stage cfg l s3) (\<lambda>s4.
     bind_exn (quality_stage cfg s4) (\<lambda>s5.
     bind_exn (std_stage sp None s5) (\<lambda>s6.
     iqr_stage cfg sp None s6)))) = Inr (s2\<lparr>backup := csv s2\<rparr>)"
  using assms
  by (simp add: displacement_stage_off linearity_stage_off quality_stage_off std_stage_off
        iqr_stage_off)

lemma c1_duration:
  "duration_stage default_settings \<lparr>csv = c1_table, backup = c1_table, dropped_row_indices = []\<rparr>
   = Inr c1_after_duration"
  by (simp add: stage_eval c1_table_def c1_after_duration_def)

lemma c1_discard: "discard_duration (csv c1_after_duration) = Inr (csv c1_before_speed)"
  by (simp add: stage_eval c1_after_duration_def c1_before_speed_def)

lemma c1_state: "c1_after_duration\<lparr>csv := csv c1_before_speed\<rparr> = c1_before_speed"
  by (simp add: c1_after_duration_def c1_before_speed_def)

lemma c1_speed:
  "speed_stage default_settings (Fin (1 / 20)) c1_before_speed
    = Inr (c1_before_speed\<lparr>csv := c1_table,
         dropped_row_indices := [(4, Fin (1 / 2), ''DURATION_THRESHOLD''),
                                 (3, Fin (1 / 100), ''SPEED_THRESHOLD'')]\<rparr>)"
  by (simp add: stage_eval c1_before_speed_def)

lemma c1_differs: "csv c1_before_speed \<noteq> c1_table"
  by (simp add: c1_before_speed_def c1_table_def)

section \<open>The overfiltering guard of the speed stage\<close>

text \<open>
  Claim C1 fails for the speed stage. On \<open>c1_table\<close> with the shipped settings and a speed
  threshold of 0.05, the duration stage drops track 4 and the duration column is
  discarded, which gives the state \<open>c1_before_speed\<close>: one row, seven columns. The speed
  stage then drops track 3, the table is empty and the guard fires. The table it puts
  back is the snapshot of line 265, \<open>c1_table\<close> with both tracks and the duration column,
  not the table the speed stage started from.
\<close>

theorem speed_stage_restores_older_snapshot:
  "bind_exn (duration_stage default_settings
        \<lparr>csv = c1_table, backup = c1_table, dropped_row_indices = []\<rparr>)
      (\<lambda>s1. bind_exn (discard_duration (csv s1)) (\<lambda>c. Inr (s1\<lparr>csv := c\<rparr>)))
     = Inr c1_before_speed
   \<and> speed_stage default_settings (Fin (1 / 20)) c1_before_speed
     = Inr (c1_before_speed\<lparr>csv := c1_table,
         dropped_row_indices := [(4, Fin (1 / 2), ''DURATION_THRESHOLD''),
                                 (3, Fin (1 / 100), ''SPEED_THRESHOLD'')]\<rparr>)
   \<and> csv c1_before_speed \<noteq> c1_table"
  by (simp add: c1_duration c1_discard c1_speed c1_differs c1_state)

section \<open>Unflagged columns in the std and IQR stages\<close>

lemmas outlier_eval = default_settings_def end_try_def
  overfiltering_guard_def outlier_body_def drop_row_def cell_def
  drop_labels_def bind_exn_def col_names_def
  MEAN_STRAIGHT_LINE_SPEED_def Let_def
  std_stage_def iqr_stage_def flagged_stats_def column_def series_std_def series_mean_def
  mean_of_def std_of_def iqr_stats_def iqr_means_def iqr_of_def np_percentile_def interpolate_def
  enumerate_eq_zip

text \<open>
  Claim C2 fails. Only \<^verbatim>\<open>MEAN_STRAIGHT_LINE_SPEED\<close> is flagged, and both tracks of \<open>c2_table\<close>
  have the same speed, so the flagged column rejects nobody. Track 3 is dropped all the
  same, by the std stage and by the IQR stage, because its unflagged
  \<^verbatim>\<open>TRACK_DISPLACEMENT\<close> is negative: the lower-bound test runs on every column, against
  0.0 - k * 0.0 for an unflagged one. Track 4, equal but for a positive displacement, stays.
\<close>

theorem unflagged_column_drops_row:
  "std_stage (Fin (1 / 20)) (Some c2_flags) c2_state
     = Inr \<lparr>csv = c2_table\<lparr>rows := [(4, map Fin [1, 1, 1, 1, 1, 1 / 2, 1])]\<rparr>,
            backup = c2_table,
            dropped_row_indices = [(3, Fin (1 / 2), ''INTERNAL_STD_FILTERING'')]\<rparr>
   \<and> iqr_stage default_settings (Fin (1 / 20)) (Some c2_flags) c2_state
     = Inr \<lparr>csv = c2_table\<lparr>rows := [(4, map Fin [1, 1, 1, 1, 1, 1 / 2, 1])]\<rparr>,
            backup = c2_table,
            dropped_row_indices = [(3, Fin (1 / 2), ''INTERNAL_IQR_FILTERING'')]\<rparr>"
  by (simp add: outlier_eval c2_table_def c2_flags_def c2_state_def)

section \<open>The summary of an empty table\<close>

lemmas summary_eval = summarize_def column_def np_mean_def np_std_def mean_of_def std_of_def
  col_names_def extra_columns_def TRACK_DURATION_def cell_def bind_exn_def Let_def
  default_settings_def

lemma c7_prepare: "prepare c7_table = Inr c7_prepared"
  by (simp add: prepare_def stage_eval c7_table_def c7_prepared_def)

lemma c7_null: "null_filter c7_prepared = Inr c7_empty"
  by (simp add: stage_eval c7_prepared_def c7_empty_def)

lemma c7_duration:
  "duration_stage default_settings \<lparr>csv = c7_empty, backup = c7_prepared, dropped_row_indices = []\<rparr>
    = Inr c7_state"
  by (simp add: stage_eval c7_empty_def c7_state_def)

lemma c7_discard: "discard_duration (csv c7_state) = Inr \<lparr>columns = col_names, rows = []\<rparr>"
  by (simp add: stage_eval c7_state_def c7_empty_def)

lemma c7_speed:
  "speed_stage default_settings thr (c7_state\<lparr>csv := \<lparr>columns = col_names, rows = []\<rparr>\<rparr>) = Inr c7_state"
  by (simp add: speed_stage_def end_try_def overfiltering_guard_def c7_state_def)

lemma c7_later: "c7_state\<lparr>backup := csv c7_state\<rparr> = c7_state"
  by (simp add: c7_state_def)

lemma c7_stages:
  "filter_stages default_settings d thr l None None c7_prepared = Inr c7_state"
  by (simp add: filter_stages_def c7_null c7_duration c7_discard c7_speed
        later_stages_off[OF default_stages_off] c7_later)

lemma c7_summarize: "summarize default_settings (csv c7_state) 2 = Inr c7_summary"
  by (simp add: summary_eval c7_state_def c7_empty_def c7_summary_def)

lemma c7_rows: "length (rows c7_prepared) = 2"
  by (simp add: c7_prepared_def)

lemma default_no_histogram: "histogram_reads default_settings t = Inr ()"
  by (simp add: histogram_reads_def default_settings_def)

text \<open>
  Claim C7 fails for the standard deviations. Both tracks of \<open>c7_table\<close> lack a duration,
  so the final table is empty. For a treatment file \<^verbatim>\<open>do_file\<close> returns \<^verbatim>\<open>None\<close> for the
  seven means and the converted speed and reports the counts 2 and 0, but the seven
  standard deviations are NaN: the loop of lines 516-519 clears \<^verbatim>\<open>output_data\<close> only. For
  the control file, where the global \<^verbatim>\<open>brownian_speed_threshold\<close> is still 0.0, the scatter
  plot of line 606 adds to \<^verbatim>\<open>None\<close> and \<^verbatim>\<open>do_file\<close> raises TypeError.
\<close>

theorem empty_table_summary_keeps_nan_stds:
  "do_file default_settings treatment_globals (\<lambda>_. Inr c7_table) ''1khz_tracks.csv''
       (Fin 0) (Fin (1 / 20)) (Fin 0) None None
     = Inr ([None, None, None, None, None, None, None, Some (Fin 2), Some (Fin 0), None],
            [Some NaN, Some NaN, Some NaN, Some NaN, Some NaN, Some NaN, Some NaN])
   \<and> do_file default_settings initial_globals (\<lambda>_. Inr c7_table) ''0khz_tracks.csv''
       (Fin 0) (Fin 0) (Fin 0) None None
     = Inl TypeError"
  by (simp add: do_file_def analyse_def c7_prepare default_no_histogram c7_stages c7_rows
        c7_summarize)
     (simp add: c7_summary_def scatter_plot_def default_settings_def treatment_globals_def
        initial_globals_def ne_def)

section \<open>A file that cannot be read\<close>

lemma c8_prepare: "prepare c8_control = Inr c8_prepared"
  by (simp add: prepare_def stage_eval c8_control_def c8_prepared_def)

lemma c8_null: "null_filter c8_prepared = Inr c8_prepared"
  by (simp add: stage_eval c8_prepared_def)

lemma c8_duration:
  "duration_stage default_settings \<lparr>csv = c8_prepared, backup = c8_prepared, dropped_row_indices = []\<rparr>
    = Inr \<lparr>csv = c8_prepared, backup = c8_prepared, dropped_row_indices = []\<rparr>"
  by (simp add: stage_eval c8_prepared_def)

lemma c8_discard: "discard_duration c8_prepared = Inr c8_filtered"
  by (simp add: stage_eval c8_prepared_def c8_filtered_def)

lemma c8_speed:
  "speed_stage default_settings (Fin 0)
      \<lparr>csv = c8_filtered, backup = c8_prepared, dropped_row_indices = []\<rparr>
    = Inr \<lparr>csv = c8_filtered, backup = c8_prepared, dropped_row_indices = []\<rparr>"
  by (simp add: stage_eval c8_filtered_def)

lemma c8_stages:
  "filter_stages default_settings (Fin 0) (Fin 0) (Fin 0) None None c8_prepared
     = Inr \<lparr>csv = c8_filtered, backup = c8_filtered, dropped_row_indices = []\<rparr>"
  by (simp add: filter_stages_def c8_null c8_duration c8_discard c8_speed
        later_stages_off[OF default_stages_off])

lemma c8_summarize:
  "summarize default_settings c8_filtered (length (rows c8_prepared)) = Inr c8_summary"
  by (simp add: summary_eval c8_filtered_def c8_summary_def c8_prepared_def)

lemma c8_control_file:
  "do_file default_settings initial_globals c8_files ''0khz_tracks.csv''
       (Fin 0) (Fin 0) (Fin 0) None None = Inr c8_summary"
  by (simp add: do_file_def c8_files_def analyse_def c8_prepare default_no_histogram c8_stages
        c8_summarize)
     (simp add: c8_summary_def scatter_plot_def)

lemma c8_missing_file:
  "name \<noteq> ''0khz_tracks.csv'' \<Longrightarrow>
     do_file cfg g c8_files name d sp l sf iqf = Inl FileNotFoundError"
  by (simp add: do_file_def c8_files_def)

lemma c8_control_step:
  "\<exists>st1. control_step default_settings c8_files 0 ''0khz_tracks.csv''
      (initial_mstate (Suc n)) = Inr st1"
  by (simp add: control_step_def default_settings_def[THEN arg_cong, of do_std_filter_flags]
        default_settings_def[THEN arg_cong, of do_iqr_filter_flags] c8_control_file
        assign_row_def c8_summary_def initial_mstate_def)

lemma main_aborts_at_unreadable_file:
  assumes "control_step cfg read_csv 0 c (initial_mstate (Suc (Suc (length rest)))) = Inr st1"
    and "read_csv n = Inl e" and "e \<noteq> RuntimeError"
  shows "main cfg read_csv True (c # n # rest) = Inl e"
  using assms
  by (simp add: main_def enumerate_eq_zip upt_rec other_step_def do_file_def
        del: enumerate_simps)

text \<open>
  Claim C8 fails. \<^verbatim>\<open>pd.read_csv\<close> raises FileNotFoundError for a file that is not there.
  \<^verbatim>\<open>do_file\<close> catches RuntimeError only (line 216), so it raises instead of returning the
  all-\<^verbatim>\<open>None\<close> summary, and the branch of \<^verbatim>\<open>main\<close> for the files after the control (lines
  834-847) has no handler: \<^verbatim>\<open>main\<close> ends with the exception at the first such file and the
  files after it are never analysed.
\<close>

theorem unreadable_file_aborts_main:
  "do_file default_settings treatment_globals c8_files ''1khz_tracks.csv''
       (Fin 0) (Fin (1 / 20)) (Fin 0) None None = Inl FileNotFoundError
   \<and> main default_settings c8_files True
       [''0khz_tracks.csv'', ''1khz_tracks.csv'', ''5khz_tracks.csv''] = Inl FileNotFoundError"
proof -
  obtain st1 where st1: "control_step default_settings c8_files 0 ''0khz_tracks.csv''
      (initial_mstate (Suc (Suc (length [''5khz_tracks.csv''])))) = Inr st1"
    using c8_control_step by blast
  have "c8_files ''1khz_tracks.csv'' = Inl FileNotFoundError"
    by (simp add: c8_files_def)
  then have "main default_settings c8_files True
       [''0khz_tracks.csv'', ''1khz_tracks.csv'', ''5khz_tracks.csv''] = Inl FileNotFoundError"
    by (intro main_aborts_at_unreadable_file[OF st1]) simp_all
  then show ?thesis by (simp add: c8_missing_file)
qed

section \<open>Tables without the duration column\<close>

lemma c9_prepare: "prepare c9_table = Inr c9_prepared"
  by (simp add: prepare_def stage_eval c9_table_def c9_prepared_def)

lemma c9_null: "null_filter c9_prepared = Inl KeyError"
  by (simp add: stage_eval c9_prepared_def)

text \<open>
  Claim C9 fails as stated: \<open>c9_table\<close> has the seven required columns and one track, and no
  \<^verbatim>\<open>TRACK_DURATION\<close>; the analysis raises KeyError at line 260.
\<close>

theorem missing_duration_column_raises:
  "set col_names \<subseteq> set (columns c9_table) \<and> TRACK_DURATION \<notin> set (columns c9_table)
   \<and> analyse default_settings initial_globals (Fin 0) (Fin 0) (Fin 0) None None c9_table
      = Inl KeyError"
  by (simp add: analyse_def c9_prepare default_no_histogram filter_stages_def)
     (simp add: c9_null c9_table_def TRACK_DURATION_not_in_col_names)

theorem track_duration_required_witness:
  "filter (\<lambda>c. c \<in> set col_names) (columns c9_headers_only) = col_names
   \<and> TRACK_DURATION \<notin> set (columns c9_headers_only)
   \<and> analyse default_settings treatment_globals (Fin 0) (Fin (1 / 20)) (Fin 0) None None
        c9_headers_only = Inl KeyError"
proof -
  have a: "filter (\<lambda>c. c \<in> set col_names) (columns c9_headers_only) = col_names"
    by (simp add: c9_headers_only_def)
  have b: "TRACK_DURATION \<notin> set (columns c9_headers_only)"
    by (simp add: c9_headers_only_def TRACK_DURATION_not_in_col_names)
  show ?thesis using a b track_duration_required [OF a b] by simp
qed

section \<open>Instances of the stage properties\<close>

lemma c10_null: "null_filter c10_table = Inr c10_nonnull"
  by (simp add: stage_eval c10_table_def c10_nonnull_def)

lemma c10_duration:
  "duration_stage default_settings \<lparr>csv = c10_nonnull, backup = c10_table, dropped_row_indices = []\<rparr>
    = Inr \<lparr>csv = c10_nonnull, backup = c10_nonnull, dropped_row_indices = []\<rparr>"
  by (simp add: stage_eval c10_nonnull_def)

lemma c10_discard: "discard_duration c10_nonnull = Inr c10_filtered"
  by (simp add: stage_eval c10_nonnull_def c10_filtered_def)

lemma c10_speed:
  "speed_stage default_settings (Fin (1 / 20))
      \<lparr>csv = c10_filtered, backup = c10_nonnull, dropped_row_indices = []\<rparr>
    = Inr \<lparr>csv = c10_filtered, backup = c10_nonnull, dropped_row_indices = []\<rparr>"
  by (simp add: stage_eval c10_filtered_def)

lemma c10_stages:
  "filter_stages default_settings (Fin 0) (Fin (1 / 20)) (Fin 0) None None c10_table
     = Inr c10_final"
  by (simp add: filter_stages_def c10_null c10_duration c10_discard c10_speed
        later_stages_off[OF default_stages_off] c10_final_def)

theorem nan_duration_rows_removed_unguarded_witness:
  "wf_table c10_table \<and> TRACK_DURATION \<in> set (columns c10_table)
   \<and> filter_stages default_settings (Fin 0) (Fin (1 / 20)) (Fin 0) None None c10_table
       = Inr c10_final
   \<and> null_filter c10_table = Inr c10_nonnull
   \<and> the_cell (columns c10_table) (NaN # map Fin [1, 1, 1, 1, 1, 1 / 2, 1]) TRACK_DURATION = NaN
   \<and> 3 \<notin> labels (csv c10_final) \<and> 3 \<notin> fst ` set (dropped_row_indices c10_final)
   \<and> labels (csv c10_final) = {4}"
proof -
  have h1: "wf_table c10_table" by (simp add: wf_table_def c10_table_def)
  have h2: "TRACK_DURATION \<in> set (columns c10_table)" by (simp add: c10_table_def)
  have r: "(3, NaN # map Fin [1, 1, 1, 1, 1, 1 / 2, 1]) \<in> set (rows c10_table)"
    by (simp add: c10_table_def)
  have n: "the_cell (columns c10_table) (NaN # map Fin [1, 1, 1, 1, 1, 1 / 2, 1]) TRACK_DURATION = NaN"
    by (simp add: the_cell_def cell_def c10_table_def)
  from nan_duration_rows_removed_unguarded [OF h1 h2 c10_stages]
  have "\<forall>r \<in> set (rows c10_table). the_cell (columns c10_table) (snd r) TRACK_DURATION = NaN \<longrightarrow>
          fst r \<notin> labels (csv c10_final) \<and> fst r \<notin> fst ` set (dropped_row_indices c10_final)"
    by blast
  from bspec[OF this r] n
  have gone: "3 \<notin> labels (csv c10_final) \<and> 3 \<notin> fst ` set (dropped_row_indices c10_final)"
    by simp
  have four: "labels (csv c10_final) = {4}"
    by (simp add: labels_def c10_final_def c10_filtered_def)
  show ?thesis using h1 h2 c10_stages c10_null n gone four by simp
qed

lemma c6_wf: "wf_table (csv c6_state)"
  by (simp add: wf_table_def c6_state_def c6_table_def)

lemma c6_speed_column: "MEAN_STRAIGHT_LINE_SPEED \<in> set (columns (csv c6_state))"
  by (simp add: c6_state_def c6_table_def col_names_def MEAN_STRAIGHT_LINE_SPEED_def)

lemma c6_percentile:
  "np_percentile (percentile_of_empty quality_settings)
     (map (\<lambda>r. the_cell (columns (csv c6_state)) (snd r) ''TRACK_MEAN_QUALITY'')
        (rows (csv c6_state)))
     (quality_percentile_filter quality_settings) = Inr (Fin 2)"
  by (simp add: np_percentile_def interpolate_def the_cell_def cell_def c6_state_def
        c6_table_def col_names_def quality_settings_def default_settings_def)

lemma c6_stds:
  "flagged_stats series_std (csv c6_state) c2_flags = Inr (map Fin [0, 0, 0, 0, 0, 0, 0])"
  by (simp add: outlier_eval c6_state_def c6_table_def c2_flags_def)

lemma c6_means:
  "flagged_stats series_mean (csv c6_state) c2_flags = Inr (map Fin [0, 0, 0, 0, 0, 1 / 2, 0])"
  by (simp add: outlier_eval c6_state_def c6_table_def c2_flags_def)

lemma c6_iqrs:
  "iqr_stats (percentile_of_empty quality_settings) (csv c6_state) c2_flags
     = Inr (map Fin [0, 0, 0, 0, 0, 0, 0])"
  by (simp add: outlier_eval c6_state_def c6_table_def c2_flags_def quality_settings_def)

lemma c6_iqr_means:
  "iqr_means (csv c6_state) c2_flags = Inr (map Fin [0, 0, 0, 0, 0, 0, 0])"
  by (simp add: outlier_eval c6_state_def c6_table_def c2_flags_def)

lemma c6_quality_outcome:
  "stage_outcome (\<lambda>r. lt (the_cell (columns (csv c6_state)) (snd r) ''TRACK_MEAN_QUALITY'') (Fin 2))
     ''QUALITY_PERCENTILE'' c6_state = c6_after_quality"
  by (simp add: stage_outcome_def overfiltering_guard_def rejected_records_def the_cell_def
        cell_def c6_state_def c6_table_def c6_after_quality_def col_names_def
        MEAN_STRAIGHT_LINE_SPEED_def)

lemma c6_outlier_outcome:
  "m \<le> 1 / 2 \<Longrightarrow> stage_outcome (\<lambda>r. outlier_scan k (Fin (1 / 20))
       (zip (snd r) (zip (map Fin [0, 0, 0, 0, 0, m, 0])
          (zip (map Fin [0, 0, 0, 0, 0, 0, 0]) c2_flags))) \<noteq> None) reason c6_state = c6_state"
  by (simp add: stage_outcome_def overfiltering_guard_def rejected_records_def
        c6_state_def c6_table_def c2_flags_def)

theorem statistics_fixed_at_stage_entry_witness:
  "wf_table (csv c6_state) \<and> MEAN_STRAIGHT_LINE_SPEED \<in> set (columns (csv c6_state))
   \<and> np_percentile (percentile_of_empty quality_settings)
        (map (\<lambda>r. the_cell (columns (csv c6_state)) (snd r) ''TRACK_MEAN_QUALITY'')
           (rows (csv c6_state)))
        (quality_percentile_filter quality_settings) = Inr (Fin 2)
   \<and> quality_stage quality_settings c6_state = Inr c6_after_quality
   \<and> flagged_stats series_std (csv c6_state) c2_flags = Inr (map Fin [0, 0, 0, 0, 0, 0, 0])
   \<and> flagged_stats series_mean (csv c6_state) c2_flags = Inr (map Fin [0, 0, 0, 0, 0, 1 / 2, 0])
   \<and> std_stage (Fin (1 / 20)) (Some c2_flags) c6_state = Inr c6_state
   \<and> iqr_stats (percentile_of_empty quality_settings) (csv c6_state) c2_flags
        = Inr (map Fin [0, 0, 0, 0, 0, 0, 0])
   \<and> iqr_means (csv c6_state) c2_flags = Inr (map Fin [0, 0, 0, 0, 0, 0, 0])
   \<and> iqr_stage quality_settings (Fin (1 / 20)) (Some c2_flags) c6_state = Inr c6_state"
proof -
  have q: "do_quality_percentile_filter quality_settings
      \<and> ''TRACK_MEAN_QUALITY'' \<in> set (columns (csv c6_state))"
    by (simp add: quality_settings_def c6_state_def c6_table_def col_names_def)
  have len: "length c2_flags = length (columns (csv c6_state))"
    by (simp add: c2_flags_def c6_state_def c6_table_def)
  note th = statistics_fixed_at_stage_entry [OF c6_wf c6_speed_column,
      where cfg = quality_settings and quality_percentile_threshold = "Fin 2"
        and std_flags = c2_flags and std_values = "map Fin [0, 0, 0, 0, 0, 0, 0]"
        and mean_values = "map Fin [0, 0, 0, 0, 0, 1 / 2, 0]"
        and speed_threshold = "Fin (1 / 20)"
        and iqr_flags = c2_flags and iqr_values = "map Fin [0, 0, 0, 0, 0, 0, 0]"
        and iqr_mean_values = "map Fin [0, 0, 0, 0, 0, 0, 0]"]
  have s1: "quality_stage quality_settings c6_state = Inr c6_after_quality"
    using th q c6_percentile c6_quality_outcome by simp
  have s2: "std_stage (Fin (1 / 20)) (Some c2_flags) c6_state = Inr c6_state"
    using th c6_stds c6_means c6_outlier_outcome[of "1 / 2" 2 "''INTERNAL_STD_FILTERING''"]
    by simp
  have s3: "iqr_stage quality_settings (Fin (1 / 20)) (Some c2_flags) c6_state = Inr c6_state"
    using th len c6_iqrs c6_iqr_means
      c6_outlier_outcome[of 0 "3 / 2" "''INTERNAL_IQR_FILTERING''"]
    by simp
  show ?thesis
    using c6_wf c6_speed_column c6_percentile s1 c6_stds c6_means s2 c6_iqrs c6_iqr_means s3
    by simp
qed

section \<open>Running the filter stages twice\<close>

lemma zip_filter_fst:
  "length cols = length vals \<Longrightarrow>
     zip (filter p cols) (map snd (filter (\<lambda>cv. p (fst cv)) (zip cols vals)))
       = filter (\<lambda>cv. p (fst cv)) (zip cols vals)"
  by (induction cols vals rule: list_induct2) simp_all

lemma map_of_filter_other:
  "p name \<Longrightarrow> map_of (filter (\<lambda>cv. p (fst cv)) xs) name = map_of xs name"
  by (induction xs) auto

lemma cell_without_duration:
  assumes "length (snd r) = length cols" and "name \<noteq> TRACK_DURATION"
  shows "the_cell (filter (\<lambda>c. c \<noteq> TRACK_DURATION) cols) (snd (without_duration cols r)) name
       = the_cell cols (snd r) name"
  using assms(2) zip_filter_fst[OF assms(1)[symmetric], of "\<lambda>c. c \<noteq> TRACK_DURATION"]
    map_of_filter_other[of "\<lambda>c. c \<noteq> TRACK_DURATION" name "zip cols (snd r)"]
  by (simp add: the_cell_def cell_def without_duration_def)

lemma length_without_duration:
  assumes "length (snd r) = length cols"
  shows "length (snd (without_duration cols r)) = length (filter (\<lambda>c. c \<noteq> TRACK_DURATION) cols)"
proof -
  have l: "length cols = length vals \<Longrightarrow>
      length (filter (\<lambda>cv. fst cv \<noteq> TRACK_DURATION) (zip cols vals))
        = length (filter (\<lambda>c. c \<noteq> TRACK_DURATION) cols)" for vals
    by (induction cols vals rule: list_induct2) simp_all
  have "length (filter (\<lambda>cv. fst cv \<noteq> TRACK_DURATION) (zip cols (snd r)))
        = length (filter (\<lambda>c. c \<noteq> TRACK_DURATION) cols)"
    by (rule l) (simp add: assms)
  then show ?thesis by (simp add: without_duration_def)
qed

lemma wf_table_filter: "wf_table t \<Longrightarrow> wf_table (t\<lparr>rows := filter q (rows t)\<rparr>)"
  by (simp add: wf_table_def distinct_map_filter list_all_iff)

lemma discard_duration_closed:
  assumes "TRACK_DURATION \<in> set (columns c)"
    and "filter (\<lambda>x. x \<noteq> TRACK_DURATION) (columns c) = col_names"
  shows "discard_duration c =
      Inr \<lparr>columns = col_names, rows = map (without_duration (columns c)) (rows c)\<rparr>"
  using assms
  by (simp add: discard_duration_def drop_columns_def check_order_col_names
        without_duration_def[abs_def])

lemma wf_table_without_duration:
  assumes "wf_table c" and "filter (\<lambda>x. x \<noteq> TRACK_DURATION) (columns c) = col_names"
  shows "wf_table \<lparr>columns = col_names, rows = map (without_duration (columns c)) (rows c)\<rparr>"
proof -
  have f: "fst \<circ> without_duration (columns c) = fst"
    by (rule ext) (simp add: without_duration_def)
  have "\<And>r. r \<in> set (rows c) \<Longrightarrow>
      length (snd (without_duration (columns c) r)) = length col_names"
    using assms length_without_duration[of _ "columns c"]
    by (simp add: wf_table_def list_all_iff)
  then show ?thesis
    using assms(1) by (simp add: wf_table_def list_all_iff f)
qed

lemma rejected_records_none: "(\<And>r. r \<in> set rs \<Longrightarrow> \<not> rej r) \<Longrightarrow> rejected_records rej reason cols rs = []"
  by (simp add: rejected_records_def filter_empty_conv)

lemma not_revert: "rows (csv s) \<noteq> [] \<Longrightarrow> overfiltering_guard s = s"
  by (simp add: overfiltering_guard_def)

lemma uniform_from_closed:
  assumes on: "en \<Longrightarrow> X = Inr (overfiltering_guard
        (s'\<lparr>csv := (csv s)\<lparr>rows := filter (\<lambda>r. \<not> rej r) (rows (csv s))\<rparr>,
            dropped_row_indices := dropped_row_indices s
               @ rejected_records rej reason cols (rows (csv s))\<rparr>))"
    and off: "\<not> en \<Longrightarrow> X = Inr (overfiltering_guard s')"
    and same: "csv s' = csv s" "dropped_row_indices s' = dropped_row_indices s"
    and ne: "filter (\<lambda>r. en \<longrightarrow> \<not> rej r) (rows (csv s)) \<noteq> []"
  shows "\<exists>D. X = Inr (s'\<lparr>csv := (csv s)\<lparr>rows := filter (\<lambda>r. en \<longrightarrow> \<not> rej r) (rows (csv s))\<rparr>,
                        dropped_row_indices := dropped_row_indices s @ D\<rparr>)
      \<and> ((\<forall>r \<in> set (rows (csv s)). en \<longrightarrow> \<not> rej r) \<longrightarrow> D = [])"
proof (cases en)
  case True
  let ?D = "rejected_records rej reason cols (rows (csv s))"
  have "X = Inr (s'\<lparr>csv := (csv s)\<lparr>rows := filter (\<lambda>r. en \<longrightarrow> \<not> rej r) (rows (csv s))\<rparr>,
                        dropped_row_indices := dropped_row_indices s @ ?D\<rparr>)"
    using on[OF True] ne True by (simp add: not_revert)
  moreover have "(\<forall>r \<in> set (rows (csv s)). en \<longrightarrow> \<not> rej r) \<longrightarrow> ?D = []"
    using True by (simp add: rejected_records_none)
  ultimately show ?thesis by blast
next
  case False
  have "rows (csv s') \<noteq> []" using ne False same by simp
  then have "X = Inr s'" using off[OF False] by (simp add: not_revert)
  moreover have "s'\<lparr>csv := (csv s)\<lparr>rows := filter (\<lambda>r. en \<longrightarrow> \<not> rej r) (rows (csv s))\<rparr>,
                        dropped_row_indices := dropped_row_indices s @ []\<rparr> = s'"
    using False same by simp
  ultimately show ?thesis by (intro exI[of _ "[]"]) simp
qed

lemma duration_stage_uniform:
  assumes "wf_table (csv s)" and "TRACK_DURATION \<in> set (columns (csv s))"
    and "MEAN_STRAIGHT_LINE_SPEED \<in> set (columns (csv s))"
    and "filter (\<lambda>r. do_duration_thresh cfg \<longrightarrow>
            \<not> (lt (the_cell (columns (csv s)) (snd r) TRACK_DURATION)
                    (Fin (of_int (duration_threshold cfg)))
                \<or> the_cell (columns (csv s)) (snd r) TRACK_DURATION = NaN)) (rows (csv s)) \<noteq> []"
  shows "\<exists>D. duration_stage cfg s =
        Inr (s\<lparr>backup := csv s,
               csv := (csv s)\<lparr>rows := filter (\<lambda>r. do_duration_thresh cfg \<longrightarrow>
            \<not> (lt (the_cell (columns (csv s)) (snd r) TRACK_DURATION)
                    (Fin (of_int (duration_threshold cfg)))
                \<or> the_cell (columns (csv s)) (snd r) TRACK_DURATION = NaN)) (rows (csv s))\<rparr>,
               dropped_row_indices := dropped_row_indices s @ D\<rparr>)
      \<and> ((\<forall>r \<in> set (rows (csv s)). do_duration_thresh cfg \<longrightarrow>
            \<not> (lt (the_cell (columns (csv s)) (snd r) TRACK_DURATION)
                    (Fin (of_int (duration_threshold cfg)))
                \<or> the_cell (columns (csv s)) (snd r) TRACK_DURATION = NaN)) \<longrightarrow> D = [])"
  using uniform_from_closed[where s' = "s\<lparr>backup := csv s\<rparr>" and s = s
      and en = "do_duration_thresh cfg" and X = "duration_stage cfg s"
      and reason = "''DURATION_THRESHOLD''" and cols = "columns (csv s)"
      and rej = "\<lambda>r. lt (the_cell (columns (csv s)) (snd r) TRACK_DURATION)
                    (Fin (of_int (duration_threshold cfg)))
                \<or> the_cell (columns (csv s)) (snd r) TRACK_DURATION = NaN"]
    duration_stage_closed[OF assms(1,2,3)] duration_stage_off[of cfg s] assms(4)
  by simp

lemma threshold_on_stripped:
  assumes wf: "wf_table \<lparr>columns = cols, rows = rs\<rparr>"
    and cn: "filter (\<lambda>x. x \<noteq> TRACK_DURATION) cols = col_names"
    and name: "name \<in> set col_names"
  shows "filter (\<lambda>r'. en \<longrightarrow> \<not> lt (the_cell col_names (snd r') name) thr)
            (map (without_duration cols) rs)
       = map (without_duration cols)
           (filter (\<lambda>r. en \<longrightarrow> \<not> lt (the_cell cols (snd r) name) thr) rs)"
proof -
  have nt: "name \<noteq> TRACK_DURATION" using name TRACK_DURATION_not_in_col_names by auto
  have "\<And>r. r \<in> set rs \<Longrightarrow>
      the_cell col_names (snd (without_duration cols r)) name = the_cell cols (snd r) name"
    using wf cell_without_duration[OF _ nt, of _ cols] cn
    by (simp add: wf_table_def list_all_iff)
  then show ?thesis
    by (simp add: filter_map comp_def cong: filter_cong)
qed

lemma wf_table_stripped:
  assumes "wf_table \<lparr>columns = cols, rows = rs\<rparr>"
    and "filter (\<lambda>x. x \<noteq> TRACK_DURATION) cols = col_names"
  shows "wf_table (stripped cols rs)"
  using wf_table_without_duration[of "\<lparr>columns = cols, rows = rs\<rparr>"] assms
  by (simp add: stripped_def)

lemma col_names_members:
  "MEAN_STRAIGHT_LINE_SPEED \<in> set col_names" "''TRACK_DISPLACEMENT'' \<in> set col_names"
  "''LINEARITY_OF_FORWARD_PROGRESSION'' \<in> set col_names"
  by (simp_all add: col_names_def MEAN_STRAIGHT_LINE_SPEED_def)

lemma stage_on_stripped:
  assumes wf: "wf_table \<lparr>columns = cols, rows = rs\<rparr>"
    and cn: "filter (\<lambda>x. x \<noteq> TRACK_DURATION) cols = col_names"
    and c: "csv s = stripped cols rs"
    and name: "name \<in> set col_names"
    and on: "en \<Longrightarrow> X = Inr (overfiltering_guard
        (s'\<lparr>csv := (csv s)\<lparr>rows := filter
                (\<lambda>r. \<not> lt (the_cell (columns (csv s)) (snd r) name) thr) (rows (csv s))\<rparr>,
            dropped_row_indices := dropped_row_indices s
               @ rejected_records (\<lambda>r. lt (the_cell (columns (csv s)) (snd r) name) thr)
                   reason (columns (csv s)) (rows (csv s))\<rparr>))"
    and off: "\<not> en \<Longrightarrow> X = Inr (overfiltering_guard s')"
    and same: "csv s' = csv s" "dropped_row_indices s' = dropped_row_indices s"
    and ne: "filter (\<lambda>r. en \<longrightarrow> \<not> lt (the_cell cols (snd r) name) thr) rs \<noteq> []"
  shows "\<exists>D. X =
        Inr (s'\<lparr>csv := stripped cols (filter (\<lambda>r. en \<longrightarrow> \<not> lt (the_cell cols (snd r) name) thr) rs),
               dropped_row_indices := dropped_row_indices s @ D\<rparr>)
      \<and> ((\<forall>r \<in> set rs. en \<longrightarrow> \<not> lt (the_cell cols (snd r) name) thr) \<longrightarrow> D = [])"
proof -
  have cols: "columns (csv s) = col_names" "rows (csv s) = map (without_duration cols) rs"
    using c by (simp_all add: stripped_def)
  note ts = threshold_on_stripped[OF wf cn name, of en thr]
  have ne': "filter (\<lambda>r. en \<longrightarrow> \<not> lt (the_cell (columns (csv s)) (snd r) name) thr)
      (rows (csv s)) \<noteq> []"
    using ne by (simp add: cols ts)
  from uniform_from_closed[where s' = s' and s = s and en = en and X = X
      and reason = reason and cols = "columns (csv s)"
      and rej = "\<lambda>r. lt (the_cell (columns (csv s)) (snd r) name) thr",
      OF on off same ne']
  obtain D where D: "X =
       Inr (s'\<lparr>csv := (csv s)\<lparr>rows := filter (\<lambda>r. en \<longrightarrow>
              \<not> lt (the_cell (columns (csv s)) (snd r) name) thr) (rows (csv s))\<rparr>,
            dropped_row_indices := dropped_row_indices s @ D\<rparr>)"
    and D0: "(\<forall>r \<in> set (rows (csv s)). en \<longrightarrow>
         \<not> lt (the_cell (columns (csv s)) (snd r) name) thr) \<longrightarrow> D = []"
    by auto
  have e: "(csv s)\<lparr>rows := filter (\<lambda>r. en \<longrightarrow>
              \<not> lt (the_cell (columns (csv s)) (snd r) name) thr) (rows (csv s))\<rparr>
      = stripped cols (filter (\<lambda>r. en \<longrightarrow> \<not> lt (the_cell cols (snd r) name) thr) rs)"
    by (simp add: cols ts) (simp add: c stripped_def)
  have all: "(\<forall>r \<in> set rs. en \<longrightarrow> \<not> lt (the_cell cols (snd r) name) thr) \<Longrightarrow> D = []"
  proof -
    assume a: "\<forall>r \<in> set rs. en \<longrightarrow> \<not> lt (the_cell cols (snd r) name) thr"
    then have "filter (\<lambda>r. en \<longrightarrow> \<not> lt (the_cell cols (snd r) name) thr) rs = rs"
      by (simp add: filter_id_conv)
    then have "filter (\<lambda>r. en \<longrightarrow> \<not> lt (the_cell (columns (csv s)) (snd r) name) thr)
         (rows (csv s)) = rows (csv s)"
      by (simp add: cols ts)
    then have "\<forall>r \<in> set (rows (csv s)). en \<longrightarrow>
         \<not> lt (the_cell (columns (csv s)) (snd r) name) thr"
      by (simp add: filter_id_conv)
    with D0 show "D = []" by blast
  qed
  show ?thesis using D e all by auto
qed

lemma stripped_facts:
  assumes "wf_table \<lparr>columns = cols, rows = rs\<rparr>"
    and "filter (\<lambda>x. x \<noteq> TRACK_DURATION) cols = col_names"
    and "csv s = stripped cols rs"
  shows "wf_table (csv s)" and "MEAN_STRAIGHT_LINE_SPEED \<in> set (columns (csv s))"
    and "''TRACK_DISPLACEMENT'' \<in> set (columns (csv s))"
    and "''LINEARITY_OF_FORWARD_PROGRESSION'' \<in> set (columns (csv s))"
  using wf_table_stripped[OF assms(1,2)] assms(3) col_names_members
  by (simp_all add: stripped_def)

lemma speed_on_stripped:
  assumes wf: "wf_table \<lparr>columns = cols, rows = rs\<rparr>"
    and cn: "filter (\<lambda>x. x \<noteq> TRACK_DURATION) cols = col_names"
    and c: "csv s = stripped cols rs"
    and ne: "filter (\<lambda>r. do_speed_thresh cfg \<longrightarrow>
                \<not> lt (the_cell cols (snd r) MEAN_STRAIGHT_LINE_SPEED) thr) rs \<noteq> []"
  shows "\<exists>D. speed_stage cfg thr s =
        Inr (s\<lparr>csv := stripped cols (filter (\<lambda>r. do_speed_thresh cfg \<longrightarrow>
                \<not> lt (the_cell cols (snd r) MEAN_STRAIGHT_LINE_SPEED) thr) rs),
               dropped_row_indices := dropped_row_indices s @ D\<rparr>)
      \<and> ((\<forall>r \<in> set rs. do_speed_thresh cfg \<longrightarrow>
                \<not> lt (the_cell cols (snd r) MEAN_STRAIGHT_LINE_SPEED) thr) \<longrightarrow> D = [])"
  by (rule stage_on_stripped[OF wf cn c col_names_members(1) _ _ _ _ ne,
        where reason = "''SPEED_THRESHOLD''"])
     (simp_all add: speed_stage_closed[OF stripped_facts(1,2)[OF wf cn c]] speed_stage_off)

lemma displacement_on_stripped:
  assumes wf: "wf_table \<lparr>columns = cols, rows = rs\<rparr>"
    and cn: "filter (\<lambda>x. x \<noteq> TRACK_DURATION) cols = col_names"
    and c: "csv s = stripped cols rs"
    and ne: "filter (\<lambda>r. do_displacement_thresh cfg \<longrightarrow>
                \<not> lt (the_cell cols (snd r) ''TRACK_DISPLACEMENT'') thr) rs \<noteq> []"
  shows "\<exists>D. displacement_stage cfg thr s =
        Inr (s\<lparr>backup := csv s,
               csv := stripped cols (filter (\<lambda>r. do_displacement_thresh cfg \<longrightarrow>
                \<not> lt (the_cell cols (snd r) ''TRACK_DISPLACEMENT'') thr) rs),
               dropped_row_indices := dropped_row_indices s @ D\<rparr>)
      \<and> ((\<forall>r \<in> set rs. do_displacement_thresh cfg \<longrightarrow>
                \<not> lt (the_cell cols (snd r) ''TRACK_DISPLACEMENT'') thr) \<longrightarrow> D = [])"
  by (rule stage_on_stripped[OF wf cn c col_names_members(2) _ _ _ _ ne,
        where reason = "''DISPLACEMENT_THRESHOLD''" and s' = "s\<lparr>backup := csv s\<rparr>"])
     (simp_all add: displacement_stage_closed[OF stripped_facts(1,3,2)[OF wf cn c]]
        displacement_stage_off)

lemma linearity_on_stripped:
  assumes wf: "wf_table \<lparr>columns = cols, rows = rs\<rparr>"
    and cn: "filter (\<lambda>x. x \<noteq> TRACK_DURATION) cols = col_names"
    and c: "csv s = stripped cols rs"
    and ne: "filter (\<lambda>r. do_linearity_thresh cfg \<longrightarrow>
                \<not> lt (the_cell cols (snd r) ''LINEARITY_OF_FORWARD_PROGRESSION'') thr) rs \<noteq> []"
  shows "\<exists>D. linearity_stage cfg thr s =
        Inr (s\<lparr>backup := csv s,
               csv := stripped cols (filter (\<lambda>r. do_linearity_thresh cfg \<longrightarrow>
                \<not> lt (the_cell cols (snd r) ''LINEARITY_OF_FORWARD_PROGRESSION'') thr) rs),
               dropped_row_indices := dropped_row_indices s @ D\<rparr>)
      \<and> ((\<forall>r \<in> set rs. do_linearity_thresh cfg \<longrightarrow>
                \<not> lt (the_cell cols (snd r) ''LINEARITY_OF_FORWARD_PROGRESSION'') thr) \<longrightarrow> D = [])"
  by (rule stage_on_stripped[OF wf cn c col_names_members(3) _ _ _ _ ne,
        where reason = "''LINEARITY_THRESHOLD''" and s' = "s\<lparr>backup := csv s\<rparr>"])
     (simp_all add: linearity_stage_closed[OF stripped_facts(1,4,2)[OF wf cn c]]
        linearity_stage_off)

lemma member_nonempty: "x \<in> set ys \<Longrightarrow> ys \<noteq> []"
  by auto

lemma pipeline_closed:
  assumes wf: "wf_table t" and td: "TRACK_DURATION \<in> set (columns t)"
    and cn: "filter (\<lambda>x. x \<noteq> TRACK_DURATION) (columns t) = col_names"
    and q: "\<not> do_quality_percentile_filter cfg"
    and ex: "\<exists>r \<in> set (rows t). passes cfg d sp l (columns t) (snd r)"
  shows "\<exists>D. filter_stages cfg d sp l None None t =
        Inr \<lparr>csv = stripped (columns t)
                 (filter (\<lambda>r. passes cfg d sp l (columns t) (snd r)) (rows t)),
             backup = stripped (columns t)
                 (filter (\<lambda>r. passes cfg d sp l (columns t) (snd r)) (rows t)),
             dropped_row_indices = D\<rparr>
      \<and> ((\<forall>r \<in> set (rows t). passes cfg d sp l (columns t) (snd r)) \<longrightarrow> D = [])"
proof -
  define cols where "cols = columns t"
  define P0 where "P0 = (\<lambda>r :: row. the_cell cols (snd r) TRACK_DURATION \<noteq> NaN)"
  define Pd where "Pd = (\<lambda>r :: row. do_duration_thresh cfg \<longrightarrow>
            \<not> (lt (the_cell cols (snd r) TRACK_DURATION) (Fin (of_int (duration_threshold cfg)))
                \<or> the_cell cols (snd r) TRACK_DURATION = NaN))"
  define Ps where "Ps = (\<lambda>r :: row. do_speed_thresh cfg \<longrightarrow>
            \<not> lt (the_cell cols (snd r) MEAN_STRAIGHT_LINE_SPEED) sp)"
  define Px where "Px = (\<lambda>r :: row. do_displacement_thresh cfg \<longrightarrow>
            \<not> lt (the_cell cols (snd r) ''TRACK_DISPLACEMENT'') d)"
  define Pl where "Pl = (\<lambda>r :: row. do_linearity_thresh cfg \<longrightarrow>
            \<not> lt (the_cell cols (snd r) ''LINEARITY_OF_FORWARD_PROGRESSION'') l)"
  define r1 where "r1 = filter P0 (rows t)"
  define r2 where "r2 = filter Pd r1"
  define r3 where "r3 = filter Ps r2"
  define r4 where "r4 = filter Px r3"
  define r5 where "r5 = filter Pl r4"
  have pass: "passes cfg d sp l cols (snd r) = (P0 r \<and> Pd r \<and> Ps r \<and> Px r \<and> Pl r)" for r
    by (auto simp: passes_def P0_def Pd_def Ps_def Px_def Pl_def)
  have r5: "r5 = filter (\<lambda>r. passes cfg d sp l cols (snd r)) (rows t)"
    by (simp add: r5_def r4_def r3_def r2_def r1_def pass conj_commute conj_left_commute
          cong: filter_cong)
  from ex obtain r0 where r0: "r0 \<in> set (rows t)" "passes cfg d sp l cols (snd r0)"
    by (auto simp: cols_def)
  have in5: "r0 \<in> set r5" using r0 by (simp add: r5)
  then have in4: "r0 \<in> set r4" and in3: "r0 \<in> set r3" and in2: "r0 \<in> set r2"
    by (simp_all add: r5_def r4_def r3_def)
  have wft: "wf_table \<lparr>columns = cols, rows = rows t\<rparr>"
    using wf by (simp add: wf_table_def cols_def)
  have wfr: "wf_table \<lparr>columns = cols, rows = filter p (rows t)\<rparr>" for p
    using wf_table_filter[OF wft, of p] by simp
  have wf2: "wf_table \<lparr>columns = cols, rows = r2\<rparr>"
    using wfr[of "\<lambda>r. P0 r \<and> Pd r"] by (simp add: r2_def r1_def conj_commute)
  have wf3: "wf_table \<lparr>columns = cols, rows = r3\<rparr>"
    using wf_table_filter[OF wf2, of Ps] by (simp add: r3_def)
  have wf4: "wf_table \<lparr>columns = cols, rows = r4\<rparr>"
    using wf_table_filter[OF wf3, of Px] by (simp add: r4_def)
  have cn': "filter (\<lambda>x. x \<noteq> TRACK_DURATION) cols = col_names" using cn by (simp add: cols_def)
  have msls: "MEAN_STRAIGHT_LINE_SPEED \<in> set cols"
  proof -
    have "MEAN_STRAIGHT_LINE_SPEED \<in> set (filter (\<lambda>x. x \<noteq> TRACK_DURATION) cols)"
      using col_names_members(1) cn' by simp
    then show ?thesis by simp
  qed
  let ?t1 = "t\<lparr>rows := r1\<rparr>"
  have nf: "null_filter t = Inr ?t1"
    using null_filter_closed[OF wf td] by (simp add: r1_def P0_def cols_def)
  have wf1: "wf_table ?t1" using wf_table_filter[OF wf, of P0] by (simp add: r1_def)
  have ne2: "filter Pd r1 \<noteq> []" using member_nonempty[OF in2[unfolded r2_def]] .
  obtain D1 where d1: "duration_stage cfg \<lparr>csv = ?t1, backup = t, dropped_row_indices = []\<rparr>
        = Inr \<lparr>csv = t\<lparr>rows := r2\<rparr>, backup = ?t1, dropped_row_indices = D1\<rparr>"
      and d1e: "(\<forall>r \<in> set r1. Pd r) \<longrightarrow> D1 = []"
    using duration_stage_uniform[of "\<lparr>csv = ?t1, backup = t, dropped_row_indices = []\<rparr>" cfg]
      wf1 td msls ne2
    by (auto simp: Pd_def cols_def r2_def)
  have disc: "discard_duration (t\<lparr>rows := r2\<rparr>) = Inr (stripped cols r2)"
    using discard_duration_closed[of "t\<lparr>rows := r2\<rparr>"] td cn
    by (simp add: stripped_def cols_def)
  let ?s2 = "\<lparr>csv = stripped cols r2, backup = ?t1, dropped_row_indices = D1\<rparr>"
  have ne3: "filter (\<lambda>r. do_speed_thresh cfg \<longrightarrow>
                \<not> lt (the_cell cols (snd r) MEAN_STRAIGHT_LINE_SPEED) sp) r2 \<noteq> []"
    using member_nonempty[OF in3[unfolded r3_def Ps_def]] .
  obtain D2 where d2: "speed_stage cfg sp ?s2
        = Inr \<lparr>csv = stripped cols r3, backup = ?t1, dropped_row_indices = D1 @ D2\<rparr>"
      and d2e: "(\<forall>r \<in> set r2. Ps r) \<longrightarrow> D2 = []"
    using speed_on_stripped[OF wf2 cn', of ?s2 cfg sp] ne3
    by (auto simp: Ps_def r3_def)
  let ?s3 = "\<lparr>csv = stripped cols r3, backup = ?t1, dropped_row_indices = D1 @ D2\<rparr>"
  have ne4: "filter (\<lambda>r. do_displacement_thresh cfg \<longrightarrow>
                \<not> lt (the_cell cols (snd r) ''TRACK_DISPLACEMENT'') d) r3 \<noteq> []"
    using member_nonempty[OF in4[unfolded r4_def Px_def]] .
  obtain D3 where d3: "displacement_stage cfg d ?s3
        = Inr \<lparr>csv = stripped cols r4, backup = stripped cols r3,
               dropped_row_indices = D1 @ D2 @ D3\<rparr>"
      and d3e: "(\<forall>r \<in> set r3. Px r) \<longrightarrow> D3 = []"
    using displacement_on_stripped[OF wf3 cn', of ?s3 cfg d] ne4
    by (auto simp: Px_def r4_def)
  let ?s4 = "\<lparr>csv = stripped cols r4, backup = stripped cols r3,
               dropped_row_indices = D1 @ D2 @ D3\<rparr>"
  have ne5: "filter (\<lambda>r. do_linearity_thresh cfg \<longrightarrow>
                \<not> lt (the_cell cols (snd r) ''LINEARITY_OF_FORWARD_PROGRESSION'') l) r4 \<noteq> []"
    using member_nonempty[OF in5[unfolded r5_def Pl_def]] .
  obtain D4 where d4: "linearity_stage cfg l ?s4
        = Inr \<lparr>csv = stripped cols r5, backup = stripped cols r4,
               dropped_row_indices = D1 @ D2 @ D3 @ D4\<rparr>"
      and d4e: "(\<forall>r \<in> set r4. Pl r) \<longrightarrow> D4 = []"
    using linearity_on_stripped[OF wf4 cn', of ?s4 cfg l] ne5
    by (auto simp: Pl_def r5_def)
  have fs: "filter_stages cfg d sp l None None t
      = Inr \<lparr>csv = stripped cols r5, backup = stripped cols r5,
             dropped_row_indices = D1 @ D2 @ D3 @ D4\<rparr>"
    by (simp add: filter_stages_def nf d1 disc d2 d3 d4 quality_stage_off[OF q] std_stage_off
          iqr_stage_off)
  have none: "D1 @ D2 @ D3 @ D4 = []"
    if a: "\<forall>r \<in> set (rows t). passes cfg d sp l cols (snd r)"
  proof -
    have all: "\<And>r. r \<in> set (rows t) \<Longrightarrow> P0 r \<and> Pd r \<and> Ps r \<and> Px r \<and> Pl r"
      using a pass by blast
    have s1: "set r1 \<subseteq> set (rows t)" by (auto simp: r1_def)
    have s2: "set r2 \<subseteq> set (rows t)" using s1 by (auto simp: r2_def)
    have s3: "set r3 \<subseteq> set (rows t)" using s2 by (auto simp: r3_def)
    have s4: "set r4 \<subseteq> set (rows t)" using s3 by (auto simp: r4_def)
    have "D1 = []" using d1e all s1 by blast
    moreover have "D2 = []" using d2e all s2 by blast
    moreover have "D3 = []" using d3e all s3 by blast
    moreover have "D4 = []" using d4e all s4 by blast
    ultimately show ?thesis by simp
  qed
  show ?thesis
    using fs none by (auto simp: r5 cols_def)
qed

lemma keep_filtered:
  assumes "distinct (map fst xs)"
  shows "filter (\<lambda>r. fst r \<in> set (map fst (filter P xs))) xs = filter P xs"
proof (rule filter_cong[OF refl])
  fix r assume r: "r \<in> set xs"
  have inj: "inj_on fst (set xs)" using assms by (simp add: distinct_map)
  show "(fst r \<in> set (map fst (filter P xs))) = P r"
  proof
    assume "fst r \<in> set (map fst (filter P xs))"
    then obtain r' where r': "r' \<in> set xs" "P r'" "fst r' = fst r" by auto
    then have "r' = r" using inj r by (simp add: inj_on_def)
    then show "P r" using r' by simp
  next
    assume "P r" then show "fst r \<in> set (map fst (filter P xs))" using r by auto
  qed
qed

lemma stripped_labels: "map fst (rows (stripped cols rs)) = map fst rs"
  by (simp add: stripped_def without_duration_def comp_def)

lemmas quality_eval = quality_stage_def column_def np_percentile_def interpolate_def
  quality_settings_def

lemma c5_quality_stages_off:
  "\<not> do_displacement_thresh quality_settings" "\<not> do_linearity_thresh quality_settings"
  by (simp_all add: quality_settings_def default_settings_def)

lemma c5_null: "null_filter c5_table = Inr c5_table"
  by (simp add: stage_eval c5_table_def)

lemma c5_duration:
  "duration_stage quality_settings \<lparr>csv = c5_table, backup = c5_table, dropped_row_indices = []\<rparr>
    = Inr \<lparr>csv = c5_table, backup = c5_table, dropped_row_indices = []\<rparr>"
  by (simp add: stage_eval quality_settings_def c5_table_def)

lemma c5_discard: "discard_duration c5_table = Inr c5_stripped"
  by (simp add: stage_eval c5_table_def c5_stripped_def)

lemma c5_speed:
  "speed_stage quality_settings (Fin (1 / 20))
      \<lparr>csv = c5_stripped, backup = c5_table, dropped_row_indices = []\<rparr>
    = Inr \<lparr>csv = c5_stripped, backup = c5_table, dropped_row_indices = []\<rparr>"
  by (simp add: stage_eval quality_settings_def c5_stripped_def)

lemma c5_quality:
  "quality_stage quality_settings
      \<lparr>csv = c5_stripped, backup = c5_stripped, dropped_row_indices = []\<rparr>
    = Inr \<lparr>csv = c5_produced, backup = c5_stripped,
           dropped_row_indices = [(3, Fin (1 / 2), ''QUALITY_PERCENTILE'')]\<rparr>"
  by (simp add: stage_eval quality_eval c5_stripped_def c5_produced_def)

lemma c5_first_run:
  "filter_stages quality_settings (Fin 0) (Fin (1 / 20)) (Fin 0) None None c5_table = Inr c5_first"
  by (simp add: filter_stages_def c5_null c5_duration c5_discard c5_speed c5_quality
        displacement_stage_off[OF c5_quality_stages_off(1)]
        linearity_stage_off[OF c5_quality_stages_off(2)] std_stage_off iqr_stage_off c5_first_def)

lemma c5_keep: "keep_tracks c5_table (map fst (rows (csv c5_first))) = c5_kept"
  by (simp add: keep_tracks_def c5_table_def c5_first_def c5_produced_def c5_kept_def)

lemma c5_null2: "null_filter c5_kept = Inr c5_kept"
  by (simp add: stage_eval c5_kept_def)

lemma c5_duration2:
  "duration_stage quality_settings \<lparr>csv = c5_kept, backup = c5_kept, dropped_row_indices = []\<rparr>
    = Inr \<lparr>csv = c5_kept, backup = c5_kept, dropped_row_indices = []\<rparr>"
  by (simp add: stage_eval quality_settings_def c5_kept_def)

lemma c5_discard2: "discard_duration c5_kept = Inr c5_produced"
  by (simp add: stage_eval c5_kept_def c5_produced_def)

lemma c5_speed2:
  "speed_stage quality_settings (Fin (1 / 20))
      \<lparr>csv = c5_produced, backup = c5_kept, dropped_row_indices = []\<rparr>
    = Inr \<lparr>csv = c5_produced, backup = c5_kept, dropped_row_indices = []\<rparr>"
  by (simp add: stage_eval quality_settings_def c5_produced_def)

lemma c5_quality2:
  "quality_stage quality_settings
      \<lparr>csv = c5_produced, backup = c5_produced, dropped_row_indices = []\<rparr>
    = Inr \<lparr>csv = c5_reduced, backup = c5_produced,
           dropped_row_indices = [(4, Fin (1 / 2), ''QUALITY_PERCENTILE'')]\<rparr>"
  by (simp add: stage_eval quality_eval c5_produced_def c5_reduced_def)

lemma c5_second_run:
  "filter_stages quality_settings (Fin 0) (Fin (1 / 20)) (Fin 0) None None c5_kept = Inr c5_second"
  by (simp add: filter_stages_def c5_null2 c5_duration2 c5_discard2 c5_speed2 c5_quality2
        displacement_stage_off[OF c5_quality_stages_off(1)]
        linearity_stage_off[OF c5_quality_stages_off(2)] std_stage_off iqr_stage_off c5_second_def)

lemma c5_literal_rerun:
  "filter_stages quality_settings (Fin 0) (Fin (1 / 20)) (Fin 0) None None (csv c5_first)
     = Inl KeyError"
proof -
  have "null_filter (csv c5_first) = Inl KeyError"
    by (simp add: stage_eval c5_first_def c5_produced_def)
  then show ?thesis by (simp add: filter_stages_def)
qed

text \<open>
  Claim C5, as amended. With the quality-percentile, std and IQR stages disabled and at
  least one track that passes the null filter and every enabled fixed threshold, the
  pipeline returns, and a second run with the same thresholds on the tracks the first run
  kept (with their \<^verbatim>\<open>TRACK_DURATION\<close> cells, which the pipeline requires) returns
  the same table and records no drop.
\<close>

theorem fixed_threshold_stages_idempotent:
  assumes "wf_table t" and "TRACK_DURATION \<in> set (columns t)"
    and "filter (\<lambda>x. x \<noteq> TRACK_DURATION) (columns t) = col_names"
    and "\<not> do_quality_percentile_filter cfg"
    and "\<exists>r \<in> set (rows t). passes cfg d sp l (columns t) (snd r)"
  shows "\<exists>s1 s2. filter_stages cfg d sp l None None t = Inr s1
      \<and> filter_stages cfg d sp l None None (keep_tracks t (map fst (rows (csv s1)))) = Inr s2
      \<and> csv s2 = csv s1 \<and> dropped_row_indices s2 = []"
proof -
  let ?P = "\<lambda>r :: row. passes cfg d sp l (columns t) (snd r)"
  let ?F = "filter ?P (rows t)"
  let ?t2 = "t\<lparr>rows := ?F\<rparr>"
  obtain D where 1: "filter_stages cfg d sp l None None t =
        Inr \<lparr>csv = stripped (columns t) ?F, backup = stripped (columns t) ?F,
             dropped_row_indices = D\<rparr>"
    using pipeline_closed[OF assms] by blast
  have dist: "distinct (map fst (rows t))" using assms(1) by (simp add: wf_table_def)
  have keep: "keep_tracks t (map fst (rows (stripped (columns t) ?F))) = ?t2"
    unfolding keep_tracks_def stripped_labels using keep_filtered[OF dist, of ?P] by simp
  have wf2: "wf_table ?t2" using wf_table_filter[OF assms(1), of ?P] by simp
  have td2: "TRACK_DURATION \<in> set (columns ?t2)" using assms(2) by simp
  have cn2: "filter (\<lambda>x. x \<noteq> TRACK_DURATION) (columns ?t2) = col_names" using assms(3) by simp
  from assms(5) obtain r0 where r0: "r0 \<in> set (rows t)" "?P r0" by blast
  then have "r0 \<in> set (rows ?t2)" by simp
  moreover have "passes cfg d sp l (columns ?t2) (snd r0)" using r0 by simp
  ultimately have ex2: "\<exists>r \<in> set (rows ?t2). passes cfg d sp l (columns ?t2) (snd r)"
    by (rule rev_bexI)
  have all2: "\<forall>r \<in> set (rows ?t2). passes cfg d sp l (columns ?t2) (snd r)" by simp
  have same: "filter (\<lambda>r. passes cfg d sp l (columns ?t2) (snd r)) (rows ?t2) = ?F" by simp
  obtain D2 where 2: "filter_stages cfg d sp l None None ?t2 =
        Inr \<lparr>csv = stripped (columns t) ?F, backup = stripped (columns t) ?F,
             dropped_row_indices = D2\<rparr>" and "D2 = []"
    using pipeline_closed[OF wf2 td2 cn2 assms(4) ex2] all2 unfolding same by auto
  then show ?thesis using 1 keep by simp
qed

theorem fixed_threshold_stages_idempotent_witness:
  "wf_table c10_table \<and> TRACK_DURATION \<in> set (columns c10_table)
   \<and> filter (\<lambda>x. x \<noteq> TRACK_DURATION) (columns c10_table) = col_names
   \<and> \<not> do_quality_percentile_filter default_settings
   \<and> passes default_settings (Fin 0) (Fin (1 / 20)) (Fin 0) (columns c10_table)
        (map Fin [100, 1, 1, 1, 1, 1, 1 / 2, 1])
   \<and> filter_stages default_settings (Fin 0) (Fin (1 / 20)) (Fin 0) None None c10_table
        = Inr c10_final
   \<and> keep_tracks c10_table (map fst (rows (csv c10_final))) = c10_nonnull
   \<and> (\<exists>s2. filter_stages default_settings (Fin 0) (Fin (1 / 20)) (Fin 0) None None c10_nonnull
          = Inr s2 \<and> csv s2 = csv c10_final \<and> dropped_row_indices s2 = [])"
proof -
  have h1: "wf_table c10_table" by (simp add: wf_table_def c10_table_def)
  have h2: "TRACK_DURATION \<in> set (columns c10_table)" by (simp add: c10_table_def)
  have h3: "filter (\<lambda>x. x \<noteq> TRACK_DURATION) (columns c10_table) = col_names"
    by (simp add: c10_table_def col_names_def TRACK_DURATION_def MEAN_STRAIGHT_LINE_SPEED_def)
  have h4: "\<not> do_quality_percentile_filter default_settings" by (simp add: default_settings_def)
  have p: "passes default_settings (Fin 0) (Fin (1 / 20)) (Fin 0) (columns c10_table)
        (map Fin [100, 1, 1, 1, 1, 1, 1 / 2, 1])"
    by (simp add: passes_def the_cell_def cell_def c10_table_def default_settings_def
          col_names_def TRACK_DURATION_def MEAN_STRAIGHT_LINE_SPEED_def)
  have r: "(4, map Fin [100, 1, 1, 1, 1, 1, 1 / 2, 1]) \<in> set (rows c10_table)"
    by (simp add: c10_table_def)
  have h5: "\<exists>r \<in> set (rows c10_table).
      passes default_settings (Fin 0) (Fin (1 / 20)) (Fin 0) (columns c10_table) (snd r)"
    using p r by (rule_tac x = "(4, map Fin [100, 1, 1, 1, 1, 1, 1 / 2, 1])" in bexI) simp_all
  have k: "keep_tracks c10_table (map fst (rows (csv c10_final))) = c10_nonnull"
    by (simp add: keep_tracks_def c10_table_def c10_final_def c10_filtered_def c10_nonnull_def)
  from fixed_threshold_stages_idempotent [OF h1 h2 h3 h4 h5]
  have "\<exists>s2. filter_stages default_settings (Fin 0) (Fin (1 / 20)) (Fin 0) None None c10_nonnull
          = Inr s2 \<and> csv s2 = csv c10_final \<and> dropped_row_indices s2 = []"
    by (simp add: c10_stages k)
  with h1 h2 h3 h4 p c10_stages k show ?thesis by blast
qed

text \<open>
  Claim C5, as stated. With the quality-percentile filter enabled (the other settings as
  shipped) and three tracks of quality 1, 2 and 3, the first run drops track 3, which is
  below the median 2. The table it produced has no \<^verbatim>\<open>TRACK_DURATION\<close> column, so the
  pipeline raises \<^verbatim>\<open>KeyError\<close> on it; on the same two tracks with their duration cells the
  second run drops track 4, which is below the new median 2.5.
\<close>

theorem second_run_drops_another_row:
  "filter_stages quality_settings (Fin 0) (Fin (1 / 20)) (Fin 0) None None c5_table = Inr c5_first
   \<and> labels (csv c5_first) = {4, 5}
   \<and> filter_stages quality_settings (Fin 0) (Fin (1 / 20)) (Fin 0) None None (csv c5_first)
       = Inl KeyError
   \<and> keep_tracks c5_table (map fst (rows (csv c5_first))) = c5_kept
   \<and> filter_stages quality_settings (Fin 0) (Fin (1 / 20)) (Fin 0) None None c5_kept
       = Inr c5_second
   \<and> labels (csv c5_second) = {5}
   \<and> dropped_row_indices c5_second = [(4, Fin (1 / 2), ''QUALITY_PERCENTILE'')]"
proof -
  have "labels (csv c5_first) = {4, 5}"
    by (simp add: labels_def c5_first_def c5_produced_def)
  moreover have "labels (csv c5_second) = {5}"
    by (simp add: labels_def c5_second_def c5_reduced_def)
  moreover have "dropped_row_indices c5_second = [(4, Fin (1 / 2), ''QUALITY_PERCENTILE'')]"
    by (simp add: c5_second_def)
  ultimately show ?thesis
    using c5_first_run c5_literal_rerun c5_keep c5_second_run by simp
qed

end
